theory Spec2Isabelle
  imports Main
begin

section \<open>Exceptions and the Command interfaces\<close>

text \<open>
  The four modules under \<^verbatim>\<open>src/behavioral/Command\<close> each declare their own abstract
  \<^verbatim>\<open>Command\<close> class. A Python exception is a value: its class, its message and its cause
  (what \<^verbatim>\<open>raise X from Y\<close> stores in \<^verbatim>\<open>X.__cause__\<close>; \<^verbatim>\<open>TransactionError\<close> also keeps it
  in its \<^verbatim>\<open>cause\<close> attribute). \<^verbatim>\<open>KeyboardInterrupt\<close> stands for the classes that derive from
  \<^verbatim>\<open>BaseException\<close> but not from \<^verbatim>\<open>Exception\<close>.
\<close>

datatype exc_class =
  AccountError | TransactionError | DeviceError | CommandError | EmptyQueueError
  | IndexError | ValueError | RuntimeError | KeyboardInterrupt

datatype exc = Exc (exc_class: exc_class) (message: string) (cause: "exc option")

fun is_Exception :: "exc_class \<Rightarrow> bool" where
  "is_Exception KeyboardInterrupt = False"
| "is_Exception _ = True"

text \<open>
  A method that mutates objects and may raise is a function from the state before the call
  to the exception raised (\<open>None\<close> when it returns normally) and the state after the call:
  what a method wrote before it raised stays written.

  An object with dynamically dispatched methods is a record of its methods, each closed
  over the object's own fields in the state. The \<^verbatim>\<open>Command\<close> interfaces of the four modules
  are nested, so they form a chain of record extensions:
  \<^item> \<open>command\<close>: \<^verbatim>\<open>queued_command_bus.Command\<close> (description, execute);
  \<^item> \<open>undoable\<close>: \<^verbatim>\<open>text_editor_command.Command\<close> (adds undo);
  \<^item> \<open>tx_command\<close>: \<^verbatim>\<open>atomic_transfer_command.Command\<close> (adds the property \<^verbatim>\<open>executed\<close>);
  \<^item> \<open>device_command\<close>: \<^verbatim>\<open>device_command_runner.Command\<close> (adds the retry policy and the
    write to \<^verbatim>\<open>_executed\<close> that the base class method \<^verbatim>\<open>run\<close> performs).
\<close>

record RetryPolicy =
  max_retries :: int
  backoff_seconds :: int

record 's command =
  description :: string
  execute :: "'s \<Rightarrow> exc option \<times> 's"

record 's undoable = "'s command" +
  undo :: "'s \<Rightarrow> exc option \<times> 's"

record 's tx_command = "'s undoable" +
  executed :: "'s \<Rightarrow> bool"

record 's device_command = "'s tx_command" +
  retry_policy :: RetryPolicy
  set_executed :: "bool \<Rightarrow> 's \<Rightarrow> 's"

text \<open>Python's \<^verbatim>\<open>str\<close> of an integer, used by the f-strings that build descriptions.\<close>

fun str_nat :: "nat \<Rightarrow> string" where
  "str_nat n = (if n < 10 then [''0123456789'' ! n]
                else str_nat (n div 10) @ [''0123456789'' ! (n mod 10)])"

declare str_nat.simps [simp del]

definition str_int :: "int \<Rightarrow> string" where
  "str_int i = (if i < 0 then CHR ''-'' # str_nat (nat (- i)) else str_nat (nat i))"

section \<open>atomic\_transfer\_command: accounts, leaf commands, the atomic composite\<close>

type_synonym ref = nat

record BankAccount =
  name :: string
  balance_cents :: int
  overdraft_limit_cents :: int

definition deposit :: "int \<Rightarrow> BankAccount \<Rightarrow> exc + BankAccount" where
  "deposit amount_cents acc =
     (if amount_cents < 0 then Inl (Exc AccountError ''Deposit amount must be non-negative.'' None)
      else Inr (acc\<lparr>balance_cents := balance_cents acc + amount_cents\<rparr>))"

definition withdraw :: "int \<Rightarrow> BankAccount \<Rightarrow> exc + BankAccount" where
  "withdraw amount_cents acc =
     (if amount_cents < 0 then Inl (Exc AccountError ''Withdraw amount must be non-negative.'' None)
      else let next_balance = balance_cents acc - amount_cents in
        if next_balance < - overdraft_limit_cents acc
        then Inl (Exc AccountError ''Insufficient funds (overdraft limit exceeded).'' None)
        else Inr (acc\<lparr>balance_cents := next_balance\<rparr>))"

text \<open>
  The bank's objects: accounts by reference, and the \<^verbatim>\<open>_executed\<close> field of every
  \<^verbatim>\<open>DepositCommand\<close> and \<^verbatim>\<open>WithdrawCommand\<close> object, by the reference of the command.
\<close>

record bank =
  accounts :: "ref \<Rightarrow> BankAccount"
  fld_executed :: "ref \<Rightarrow> bool"

definition DepositCommand_execute :: "ref \<Rightarrow> ref \<Rightarrow> int \<Rightarrow> bank \<Rightarrow> exc option \<times> bank" where
  "DepositCommand_execute self account amount s =
     (case deposit amount (accounts s account) of
        Inl e \<Rightarrow> (Some e, s)
      | Inr a \<Rightarrow> (None, s\<lparr>accounts := (accounts s)(account := a),
                           fld_executed := (fld_executed s)(self := True)\<rparr>))"

definition DepositCommand_undo :: "ref \<Rightarrow> ref \<Rightarrow> int \<Rightarrow> bank \<Rightarrow> exc option \<times> bank" where
  "DepositCommand_undo self account amount s =
     (if \<not> fld_executed s self then (None, s)
      else case withdraw amount (accounts s account) of
        Inl e \<Rightarrow> (Some e, s)
      | Inr a \<Rightarrow> (None, s\<lparr>accounts := (accounts s)(account := a),
                           fld_executed := (fld_executed s)(self := False)\<rparr>))"

definition WithdrawCommand_execute :: "ref \<Rightarrow> ref \<Rightarrow> int \<Rightarrow> bank \<Rightarrow> exc option \<times> bank" where
  "WithdrawCommand_execute self account amount s =
     (case withdraw amount (accounts s account) of
        Inl e \<Rightarrow> (Some e, s)
      | Inr a \<Rightarrow> (None, s\<lparr>accounts := (accounts s)(account := a),
                           fld_executed := (fld_executed s)(self := True)\<rparr>))"

definition WithdrawCommand_undo :: "ref \<Rightarrow> ref \<Rightarrow> int \<Rightarrow> bank \<Rightarrow> exc option \<times> bank" where
  "WithdrawCommand_undo self account amount s =
     (if \<not> fld_executed s self then (None, s)
      else case deposit amount (accounts s account) of
        Inl e \<Rightarrow> (Some e, s)
      | Inr a \<Rightarrow> (None, s\<lparr>accounts := (accounts s)(account := a),
                           fld_executed := (fld_executed s)(self := False)\<rparr>))"

text \<open>
  The constructors. \<open>self\<close> is the reference of the new command object; \<open>s0\<close> is the state
  at construction, from which the description reads the account's name.
\<close>

definition DepositCommand :: "bank \<Rightarrow> ref \<Rightarrow> ref \<Rightarrow> int \<Rightarrow> bank tx_command" where
  "DepositCommand s0 self account amount_cents =
     \<lparr>description = ''Deposit '' @ str_int amount_cents @ ''c to '' @ name (accounts s0 account),
      execute = DepositCommand_execute self account amount_cents,
      undo = DepositCommand_undo self account amount_cents,
      executed = (\<lambda>s. fld_executed s self)\<rparr>"

definition WithdrawCommand :: "bank \<Rightarrow> ref \<Rightarrow> ref \<Rightarrow> int \<Rightarrow> bank tx_command" where
  "WithdrawCommand s0 self account amount_cents =
     \<lparr>description = ''Withdraw '' @ str_int amount_cents @ ''c from '' @ name (accounts s0 account),
      execute = WithdrawCommand_execute self account amount_cents,
      undo = WithdrawCommand_undo self account amount_cents,
      executed = (\<lambda>s. fld_executed s self)\<rparr>"

subsection \<open>AtomicCompositeCommand\<close>

text \<open>
  The composite's own fields \<^verbatim>\<open>_executed_count\<close> and \<^verbatim>\<open>_executed\<close>. Its state is the pair of
  these fields and the state \<open>'s\<close> its items act on (their own fields and the receivers),
  so an item cannot write the fields of the composite that holds it. \<^verbatim>\<open>_items\<close> is the
  list the composite was built with.
\<close>

record composite =
  executed_count :: nat
  executed_flag :: bool

definition new_composite :: composite where
  "new_composite = \<lparr>executed_count = 0, executed_flag = False\<rparr>"

text \<open>
  The loop \<^verbatim>\<open>for cmd in self._items: cmd.execute(); self._executed_count += 1\<close>: it
  stops at the first item that raises.
\<close>

fun execute_items :: "'s tx_command list \<Rightarrow> composite \<times> 's \<Rightarrow> exc option \<times> composite \<times> 's" where
  "execute_items [] (c, s) = (None, (c, s))"
| "execute_items (cmd # rest) (c, s) =
     (case execute cmd s of
        (Some e, s') \<Rightarrow> (Some e, (c, s'))
      | (None, s') \<Rightarrow> execute_items rest (c\<lparr>executed_count := executed_count c + 1\<rparr>, s'))"

text \<open>
  The rollback loop over \<^verbatim>\<open>reversed(self._items[: self._executed_count])\<close>, given that
  reversed list: every \<^verbatim>\<open>cmd.undo()\<close> is tried, and what it raises is dropped.
\<close>

fun rollback :: "'s tx_command list \<Rightarrow> 's \<Rightarrow> 's" where
  "rollback [] s = s"
| "rollback (cmd # rest) s = rollback rest (snd (undo cmd s))"

definition AtomicCompositeCommand_execute ::
  "'s tx_command list \<Rightarrow> composite \<times> 's \<Rightarrow> exc option \<times> composite \<times> 's" where
  "AtomicCompositeCommand_execute items cs =
     (case execute_items items (fst cs\<lparr>executed_count := 0\<rparr>, snd cs) of
        (None, (c, s)) \<Rightarrow> (None, (c\<lparr>executed_flag := True\<rparr>, s))
      | (Some e, (c, s)) \<Rightarrow>
          (Some (Exc TransactionError ''Atomic composite failed and was rolled back.'' (Some e)),
           (c\<lparr>executed_flag := False\<rparr>, rollback (rev (take (executed_count c) items)) s)))"

text \<open>
  The loop of \<^verbatim>\<open>undo\<close> over the same reversed list; here an exception of \<^verbatim>\<open>cmd.undo()\<close>
  leaves the loop and the method.
\<close>

fun undo_items :: "('s, 'z) undoable_scheme list \<Rightarrow> 's \<Rightarrow> exc option \<times> 's" where
  "undo_items [] s = (None, s)"
| "undo_items (cmd # rest) s =
     (case undo cmd s of
        (Some e, s') \<Rightarrow> (Some e, s')
      | (None, s') \<Rightarrow> undo_items rest s')"

definition AtomicCompositeCommand_undo ::
  "'s tx_command list \<Rightarrow> composite \<times> 's \<Rightarrow> exc option \<times> composite \<times> 's" where
  "AtomicCompositeCommand_undo items cs =
     (if \<not> executed_flag (fst cs) then (None, cs)
      else case undo_items (rev (take (executed_count (fst cs)) items)) (snd cs) of
        (Some e, s) \<Rightarrow> (Some e, (fst cs, s))
      | (None, s) \<Rightarrow> (None, (fst cs\<lparr>executed_count := 0, executed_flag := False\<rparr>, s)))"

definition AtomicCompositeCommand :: "string \<Rightarrow> 's tx_command list \<Rightarrow> (composite \<times> 's) tx_command" where
  "AtomicCompositeCommand descr items =
     \<lparr>description = descr,
      execute = AtomicCompositeCommand_execute items,
      undo = AtomicCompositeCommand_undo items,
      executed = (\<lambda>cs. executed_flag (fst cs))\<rparr>"

text \<open>
  \<^verbatim>\<open>TransferCommand(source, destination, amount_cents)\<close> adds a new \<^verbatim>\<open>WithdrawCommand\<close> and a
  new \<^verbatim>\<open>DepositCommand\<close>; \<open>w\<close> and \<open>d\<close> are the references of these two objects.
\<close>

definition TransferCommand ::
  "bank \<Rightarrow> ref \<Rightarrow> ref \<Rightarrow> ref \<Rightarrow> ref \<Rightarrow> int \<Rightarrow> (composite \<times> bank) tx_command" where
  "TransferCommand s0 w d source destination amount_cents =
     AtomicCompositeCommand
       (''Transfer '' @ str_int amount_cents @ ''c '' @ name (accounts s0 source) @ '' -> ''
          @ name (accounts s0 destination))
       [WithdrawCommand s0 w source amount_cents, DepositCommand s0 d destination amount_cents]"

section \<open>device\_command\_runner: the retry loop, the device, its commands, the composite\<close>

record CommandResult =
  success :: bool
  result_value :: "unit option"
  error :: "exc option"

text \<open>
  \<^verbatim>\<open>Command.run\<close>: the loop \<^verbatim>\<open>while attempts < total\<close>, with its local variables
  (\<open>total_tries\<close> is the local \<^verbatim>\<open>total\<close>).
  \<^verbatim>\<open>except BaseException\<close> catches whatever \<^verbatim>\<open>execute\<close> raises, so \<open>run\<close> has no exception
  of its own to return. The field \<^verbatim>\<open>value\<close> of the result is never set (\<open>result_value\<close>).
\<close>

function run_loop ::
  "'s device_command \<Rightarrow> int \<Rightarrow> int \<Rightarrow> exc option \<Rightarrow> 's \<Rightarrow> CommandResult \<times> 's" where
  "run_loop cmd total_tries attempts last_exc s =
     (if attempts < total_tries then
        (case execute cmd s of
           (None, s') \<Rightarrow>
             (\<lparr>success = True, result_value = None, error = None\<rparr>, set_executed cmd True s')
         | (Some e, s') \<Rightarrow> run_loop cmd total_tries (attempts + 1) (Some e) s')
      else (\<lparr>success = False, result_value = None, error = last_exc\<rparr>, s))"
  by pat_completeness auto
termination
  by (relation "measure (\<lambda>(cmd, total_tries, attempts, last_exc, s). nat (total_tries - attempts))") auto

declare run_loop.simps [simp del]

definition run :: "'s device_command \<Rightarrow> 's \<Rightarrow> CommandResult \<times> 's" where
  "run cmd s = run_loop cmd (1 + max 0 (max_retries (retry_policy cmd))) 0 None s"

definition default_RetryPolicy :: RetryPolicy where
  "default_RetryPolicy = \<lparr>max_retries = 0, backoff_seconds = 0\<rparr>"

subsection \<open>The device composite\<close>

text \<open>
  The loop of \<^verbatim>\<open>execute\<close>: each item is run with its retry policy; a failed result is
  raised as a \<^verbatim>\<open>CommandError\<close> \<^verbatim>\<open>from res.error\<close>.
\<close>

fun run_items :: "'s device_command list \<Rightarrow> composite \<times> 's \<Rightarrow> exc option \<times> composite \<times> 's" where
  "run_items [] (c, s) = (None, (c, s))"
| "run_items (cmd # rest) (c, s) =
     (case run cmd s of
        (res, s') \<Rightarrow>
          if \<not> success res
          then (Some (Exc CommandError (''Sub-command failed: '' @ description cmd) (error res)), (c, s'))
          else run_items rest (c\<lparr>executed_count := executed_count c + 1\<rparr>, s'))"

text \<open>The rollback loop: \<^verbatim>\<open>if cmd.executed: cmd.undo()\<close>, what undo raises is only logged.\<close>

fun rollback_executed :: "'s device_command list \<Rightarrow> 's \<Rightarrow> 's" where
  "rollback_executed [] s = s"
| "rollback_executed (cmd # rest) s =
     rollback_executed rest (if executed cmd s then snd (undo cmd s) else s)"

definition Device_AtomicCompositeCommand_execute ::
  "string \<Rightarrow> 's device_command list \<Rightarrow> composite \<times> 's \<Rightarrow> exc option \<times> composite \<times> 's" where
  "Device_AtomicCompositeCommand_execute descr items cs =
     (case run_items items (fst cs\<lparr>executed_count := 0\<rparr>, snd cs) of
        (None, (c, s)) \<Rightarrow> (None, (c\<lparr>executed_flag := True\<rparr>, s))
      | (Some e, (c, s)) \<Rightarrow>
          (Some (Exc CommandError
                   (''Composite '' @ [CHR 0x27] @ descr @ [CHR 0x27] @ '' rolled back due to failure.'')
                   (Some e)),
           (c\<lparr>executed_flag := False\<rparr>, rollback_executed (rev (take (executed_count c) items)) s)))"

definition Device_AtomicCompositeCommand_undo ::
  "'s device_command list \<Rightarrow> composite \<times> 's \<Rightarrow> exc option \<times> composite \<times> 's" where
  "Device_AtomicCompositeCommand_undo items cs =
     (if \<not> executed_flag (fst cs) then (None, cs)
      else case undo_items (rev (take (executed_count (fst cs)) items)) (snd cs) of
        (Some e, s) \<Rightarrow> (Some e, (fst cs, s))
      | (None, s) \<Rightarrow> (None, (fst cs\<lparr>executed_count := 0, executed_flag := False\<rparr>, s)))"

definition Device_AtomicCompositeCommand ::
  "string \<Rightarrow> 's device_command list \<Rightarrow> (composite \<times> 's) device_command" where
  "Device_AtomicCompositeCommand descr items =
     \<lparr>description = descr,
      execute = Device_AtomicCompositeCommand_execute descr items,
      undo = Device_AtomicCompositeCommand_undo items,
      executed = (\<lambda>cs. executed_flag (fst cs)),
      retry_policy = default_RetryPolicy,
      set_executed = (\<lambda>b cs. (fst cs\<lparr>executed_flag := b\<rparr>, snd cs))\<rparr>"

subsection \<open>PLCDevice\<close>

text \<open>Parameter values (\<^verbatim>\<open>Any\<close>): \<^verbatim>\<open>None\<close>, integers and strings.\<close>

datatype pyval = PyNone | PyInt int | PyStr string

fun py_str :: "pyval \<Rightarrow> string" where
  "py_str PyNone = ''None''"
| "py_str (PyInt i) = str_int i"
| "py_str (PyStr s) = s"

record PLCDevice =
  device_name :: string
  connected :: bool
  params :: "string \<rightharpoonup> pyval"
  running_program :: "string option"
  fail_on :: "string \<rightharpoonup> bool"

text \<open>\<^verbatim>\<open>self._fail.get(subject)\<close> as a condition: a missing key gives \<^verbatim>\<open>None\<close>, which is false.\<close>

definition fails :: "PLCDevice \<Rightarrow> string \<Rightarrow> bool" where
  "fails d subject = (fail_on d subject = Some True)"

definition connect :: "int \<Rightarrow> PLCDevice \<Rightarrow> exc + PLCDevice" where
  "connect timeout_s d =
     (if fails d ''connect''
      then Inl (Exc DeviceError (''['' @ device_name d @ ''] Simulated connect failure.'') None)
      else Inr (d\<lparr>connected := True\<rparr>))"

definition disconnect :: "PLCDevice \<Rightarrow> exc + PLCDevice" where
  "disconnect d =
     (if \<not> connected d then Inr d
      else if fails d ''disconnect''
      then Inl (Exc DeviceError (''['' @ device_name d @ ''] Simulated disconnect failure.'') None)
      else Inr (d\<lparr>connected := False\<rparr>))"

text \<open>\<^verbatim>\<open>set_param\<close> returns \<^verbatim>\<open>self.params.get(key)\<close>: \<^verbatim>\<open>None\<close> for a key that is not there.\<close>

definition set_param :: "string \<Rightarrow> pyval \<Rightarrow> PLCDevice \<Rightarrow> exc + pyval \<times> PLCDevice" where
  "set_param key v d =
     (if \<not> connected d then Inl (Exc DeviceError (''['' @ device_name d @ ''] Not connected.'') None)
      else if fails d ''set_param''
      then Inl (Exc DeviceError (''['' @ device_name d @ ''] Simulated set_param failure.'') None)
      else Inr (case params d key of None \<Rightarrow> PyNone | Some prev \<Rightarrow> prev,
                d\<lparr>params := (params d)(key \<mapsto> v)\<rparr>))"

text \<open>\<^verbatim>\<open>if self.running_program:\<close> is false for \<^verbatim>\<open>None\<close> and for the empty string.\<close>

definition start_program :: "string \<Rightarrow> PLCDevice \<Rightarrow> exc + PLCDevice" where
  "start_program prog d =
     (if \<not> connected d then Inl (Exc DeviceError (''['' @ device_name d @ ''] Not connected.'') None)
      else if fails d ''start_program''
      then Inl (Exc DeviceError (''['' @ device_name d @ ''] Simulated start_program failure.'') None)
      else case running_program d of
        Some p \<Rightarrow>
          if p \<noteq> []
          then Inl (Exc DeviceError (''['' @ device_name d @ ''] Program already running: '' @ p) None)
          else Inr (d\<lparr>running_program := Some prog\<rparr>)
      | None \<Rightarrow> Inr (d\<lparr>running_program := Some prog\<rparr>))"

definition stop_program :: "PLCDevice \<Rightarrow> exc + PLCDevice" where
  "stop_program d =
     (if \<not> connected d then Inl (Exc DeviceError (''['' @ device_name d @ ''] Not connected.'') None)
      else if fails d ''stop_program''
      then Inl (Exc DeviceError (''['' @ device_name d @ ''] Simulated stop_program failure.'') None)
      else Inr (d\<lparr>running_program := None\<rparr>))"

subsection \<open>The device commands\<close>

text \<open>
  The objects of this module: devices by reference, and by the reference of the command
  its field \<^verbatim>\<open>_executed\<close>, the fields \<^verbatim>\<open>_prev\<close> and \<^verbatim>\<open>_had_prev\<close> of a \<^verbatim>\<open>SetParameterCommand\<close>
  and the field \<^verbatim>\<open>_prev\<close> of a \<^verbatim>\<open>StopProgramCommand\<close>.
\<close>

record plant =
  devices :: "ref \<Rightarrow> PLCDevice"
  cmd_executed :: "ref \<Rightarrow> bool"
  cmd_prev :: "ref \<Rightarrow> pyval"
  cmd_had_prev :: "ref \<Rightarrow> bool"
  cmd_prev_program :: "ref \<Rightarrow> string option"

definition write_executed :: "ref \<Rightarrow> bool \<Rightarrow> plant \<Rightarrow> plant" where
  "write_executed self b s = s\<lparr>cmd_executed := (cmd_executed s)(self := b)\<rparr>"

definition ConnectCommand_execute :: "ref \<Rightarrow> int \<Rightarrow> plant \<Rightarrow> exc option \<times> plant" where
  "ConnectCommand_execute dev timeout_s s =
     (case connect timeout_s (devices s dev) of
        Inl e \<Rightarrow> (Some e, s)
      | Inr d \<Rightarrow> (None, s\<lparr>devices := (devices s)(dev := d)\<rparr>))"

definition ConnectCommand_undo :: "ref \<Rightarrow> plant \<Rightarrow> exc option \<times> plant" where
  "ConnectCommand_undo dev s =
     (case disconnect (devices s dev) of
        Inl e \<Rightarrow> (Some e, s)
      | Inr d \<Rightarrow> (None, s\<lparr>devices := (devices s)(dev := d)\<rparr>))"

definition ConnectCommand :: "plant \<Rightarrow> ref \<Rightarrow> ref \<Rightarrow> int \<Rightarrow> RetryPolicy option \<Rightarrow> plant device_command" where
  "ConnectCommand s0 self dev timeout_s policy =
     \<lparr>description = ''Connect('' @ device_name (devices s0 dev) @ '')'',
      execute = ConnectCommand_execute dev timeout_s,
      undo = ConnectCommand_undo dev,
      executed = (\<lambda>s. cmd_executed s self),
      retry_policy = (case policy of None \<Rightarrow> default_RetryPolicy | Some p \<Rightarrow> p),
      set_executed = write_executed self\<rparr>"

text \<open>\<^verbatim>\<open>DisconnectCommand.undo\<close> is \<^verbatim>\<open>pass\<close>.\<close>

definition DisconnectCommand_execute :: "ref \<Rightarrow> plant \<Rightarrow> exc option \<times> plant" where
  "DisconnectCommand_execute dev s =
     (case disconnect (devices s dev) of
        Inl e \<Rightarrow> (Some e, s)
      | Inr d \<Rightarrow> (None, s\<lparr>devices := (devices s)(dev := d)\<rparr>))"

definition DisconnectCommand :: "plant \<Rightarrow> ref \<Rightarrow> ref \<Rightarrow> plant device_command" where
  "DisconnectCommand s0 self dev =
     \<lparr>description = ''Disconnect('' @ device_name (devices s0 dev) @ '')'',
      execute = DisconnectCommand_execute dev,
      undo = (\<lambda>s. (None, s)),
      executed = (\<lambda>s. cmd_executed s self),
      retry_policy = default_RetryPolicy,
      set_executed = write_executed self\<rparr>"

text \<open>
  \<^verbatim>\<open>SetParameterCommand.execute\<close> reads \<^verbatim>\<open>self._key in self._device.params\<close> after
  \<^verbatim>\<open>set_param\<close> has stored the new value.
\<close>

definition SetParameterCommand_execute ::
  "ref \<Rightarrow> ref \<Rightarrow> string \<Rightarrow> pyval \<Rightarrow> plant \<Rightarrow> exc option \<times> plant" where
  "SetParameterCommand_execute self dev key v s =
     (case set_param key v (devices s dev) of
        Inl e \<Rightarrow> (Some e, s)
      | Inr (prev, d) \<Rightarrow>
          (None, s\<lparr>devices := (devices s)(dev := d),
                   cmd_prev := (cmd_prev s)(self := prev),
                   cmd_had_prev := (cmd_had_prev s)(self := (key \<in> dom (params d)))\<rparr>))"

definition SetParameterCommand_undo :: "ref \<Rightarrow> ref \<Rightarrow> string \<Rightarrow> plant \<Rightarrow> exc option \<times> plant" where
  "SetParameterCommand_undo self dev key s =
     (if \<not> cmd_executed s self then (None, s)
      else if cmd_had_prev s self then
        (case set_param key (cmd_prev s self) (devices s dev) of
           Inl e \<Rightarrow> (Some e, s)
         | Inr (prev, d) \<Rightarrow> (None, s\<lparr>devices := (devices s)(dev := d)\<rparr>))
      else
        (None, s\<lparr>devices := (devices s)
           (dev := (devices s dev)\<lparr>params := (params (devices s dev))(key := None)\<rparr>)\<rparr>))"

definition SetParameterCommand ::
  "plant \<Rightarrow> ref \<Rightarrow> ref \<Rightarrow> string \<Rightarrow> pyval \<Rightarrow> RetryPolicy option \<Rightarrow> plant device_command" where
  "SetParameterCommand s0 self dev key v policy =
     \<lparr>description = ''SetParam('' @ device_name (devices s0 dev) @ ''.'' @ key @ ''='' @ py_str v @ '')'',
      execute = SetParameterCommand_execute self dev key v,
      undo = SetParameterCommand_undo self dev key,
      executed = (\<lambda>s. cmd_executed s self),
      retry_policy = (case policy of None \<Rightarrow> default_RetryPolicy | Some p \<Rightarrow> p),
      set_executed = write_executed self\<rparr>"

definition StartProgramCommand_execute :: "ref \<Rightarrow> string \<Rightarrow> plant \<Rightarrow> exc option \<times> plant" where
  "StartProgramCommand_execute dev prog s =
     (case start_program prog (devices s dev) of
        Inl e \<Rightarrow> (Some e, s)
      | Inr d \<Rightarrow> (None, s\<lparr>devices := (devices s)(dev := d)\<rparr>))"

definition StartProgramCommand_undo :: "ref \<Rightarrow> ref \<Rightarrow> string \<Rightarrow> plant \<Rightarrow> exc option \<times> plant" where
  "StartProgramCommand_undo self dev prog s =
     (if \<not> cmd_executed s self then (None, s)
      else if running_program (devices s dev) = Some prog then
        (case stop_program (devices s dev) of
           Inl e \<Rightarrow> (Some e, s)
         | Inr d \<Rightarrow> (None, s\<lparr>devices := (devices s)(dev := d)\<rparr>))
      else (None, s))"

definition StartProgramCommand ::
  "plant \<Rightarrow> ref \<Rightarrow> ref \<Rightarrow> string \<Rightarrow> RetryPolicy option \<Rightarrow> plant device_command" where
  "StartProgramCommand s0 self dev prog policy =
     \<lparr>description = ''StartProgram('' @ device_name (devices s0 dev) @ '':'' @ prog @ '')'',
      execute = StartProgramCommand_execute dev prog,
      undo = StartProgramCommand_undo self dev prog,
      executed = (\<lambda>s. cmd_executed s self),
      retry_policy = (case policy of None \<Rightarrow> default_RetryPolicy | Some p \<Rightarrow> p),
      set_executed = write_executed self\<rparr>"

text \<open>\<^verbatim>\<open>StopProgramCommand.execute\<close> stores \<^verbatim>\<open>_prev\<close> before it calls \<^verbatim>\<open>stop_program\<close>.\<close>

definition StopProgramCommand_execute :: "ref \<Rightarrow> ref \<Rightarrow> plant \<Rightarrow> exc option \<times> plant" where
  "StopProgramCommand_execute self dev s =
     (let s1 = s\<lparr>cmd_prev_program := (cmd_prev_program s)(self := running_program (devices s dev))\<rparr>
      in case stop_program (devices s1 dev) of
        Inl e \<Rightarrow> (Some e, s1)
      | Inr d \<Rightarrow> (None, s1\<lparr>devices := (devices s1)(dev := d)\<rparr>))"

definition StopProgramCommand_undo :: "ref \<Rightarrow> ref \<Rightarrow> plant \<Rightarrow> exc option \<times> plant" where
  "StopProgramCommand_undo self dev s =
     (if \<not> cmd_executed s self then (None, s)
      else case cmd_prev_program s self of
        None \<Rightarrow> (None, s)
      | Some p \<Rightarrow>
          if p = [] then (None, s)
          else (case start_program p (devices s dev) of
                  Inl e \<Rightarrow> (Some e, s)
                | Inr d \<Rightarrow> (None, s\<lparr>devices := (devices s)(dev := d)\<rparr>)))"

definition StopProgramCommand :: "plant \<Rightarrow> ref \<Rightarrow> ref \<Rightarrow> RetryPolicy option \<Rightarrow> plant device_command" where
  "StopProgramCommand s0 self dev policy =
     \<lparr>description = ''StopProgram('' @ device_name (devices s0 dev) @ '')'',
      execute = StopProgramCommand_execute self dev,
      undo = StopProgramCommand_undo self dev,
      executed = (\<lambda>s. cmd_executed s self),
      retry_policy = (case policy of None \<Rightarrow> default_RetryPolicy | Some p \<Rightarrow> p),
      set_executed = write_executed self\<rparr>"

section \<open>text\_editor\_command: the buffer, the editor commands, the macro\<close>

text \<open>
  Python's slices \<^verbatim>\<open>xs[a:b]\<close>, \<^verbatim>\<open>xs[:b]\<close> and \<^verbatim>\<open>xs[a:]\<close>: a negative index counts from the
  end, and every index is clipped to the range from 0 to the length.
\<close>

definition slice_index :: "nat \<Rightarrow> int \<Rightarrow> nat" where
  "slice_index n i = (if i < 0 then nat (max 0 (int n + i)) else min (nat i) n)"

definition slice :: "'a list \<Rightarrow> int \<Rightarrow> int \<Rightarrow> 'a list" where
  "slice xs a b =
     (let lo = slice_index (length xs) a; hi = slice_index (length xs) b
      in take (hi - lo) (drop lo xs))"

definition slice_to :: "'a list \<Rightarrow> int \<Rightarrow> 'a list" where
  "slice_to xs b = take (slice_index (length xs) b) xs"

definition slice_from :: "'a list \<Rightarrow> int \<Rightarrow> 'a list" where
  "slice_from xs a = drop (slice_index (length xs) a) xs"

record TextBuffer =
  buf_text :: string
  cursor :: int

definition buffer_insert :: "string \<Rightarrow> TextBuffer \<Rightarrow> TextBuffer" where
  "buffer_insert s b =
     b\<lparr>buf_text := slice_to (buf_text b) (cursor b) @ s @ slice_from (buf_text b) (cursor b),
       cursor := cursor b + int (length s)\<rparr>"

definition buffer_delete :: "int \<Rightarrow> TextBuffer \<Rightarrow> string \<times> TextBuffer" where
  "buffer_delete count b =
     (slice (buf_text b) (cursor b) (cursor b + count),
      b\<lparr>buf_text := slice_to (buf_text b) (cursor b) @ slice_from (buf_text b) (cursor b + count)\<rparr>)"

definition move_cursor :: "int \<Rightarrow> TextBuffer \<Rightarrow> int \<times> TextBuffer" where
  "move_cursor pos b = (cursor b, b\<lparr>cursor := max 0 (min pos (int (length (buf_text b))))\<rparr>)"

text \<open>
  The editor's objects: buffers by reference, and by the reference of the command the
  field \<^verbatim>\<open>_start_pos\<close> of an \<^verbatim>\<open>InsertText\<close>, \<^verbatim>\<open>_deleted\<close> of a \<^verbatim>\<open>DeleteText\<close> and \<^verbatim>\<open>_prev\<close> of a
  \<^verbatim>\<open>MoveCursor\<close>.
\<close>

record editor =
  buffers :: "ref \<Rightarrow> TextBuffer"
  fld_start_pos :: "ref \<Rightarrow> int option"
  fld_deleted :: "ref \<Rightarrow> string"
  fld_prev :: "ref \<Rightarrow> int option"

definition InsertText_execute :: "ref \<Rightarrow> ref \<Rightarrow> string \<Rightarrow> editor \<Rightarrow> exc option \<times> editor" where
  "InsertText_execute self buf txt s =
     (None, s\<lparr>fld_start_pos := (fld_start_pos s)(self := Some (cursor (buffers s buf))),
              buffers := (buffers s)(buf := buffer_insert txt (buffers s buf))\<rparr>)"

definition InsertText_undo :: "ref \<Rightarrow> ref \<Rightarrow> string \<Rightarrow> editor \<Rightarrow> exc option \<times> editor" where
  "InsertText_undo self buf txt s =
     (case fld_start_pos s self of
        None \<Rightarrow> (None, s)
      | Some start_pos \<Rightarrow>
          let b1 = snd (move_cursor start_pos (buffers s buf));
              b2 = snd (buffer_delete (int (length txt)) b1)
          in (None, s\<lparr>buffers := (buffers s)(buf := b2)\<rparr>))"

definition InsertText :: "ref \<Rightarrow> ref \<Rightarrow> string \<Rightarrow> editor undoable" where
  "InsertText self buf txt =
     \<lparr>description = ''Insert '' @ [CHR 0x27] @ txt @ [CHR 0x27],
      execute = InsertText_execute self buf txt,
      undo = InsertText_undo self buf txt\<rparr>"




definition MoveCursor_execute :: "ref \<Rightarrow> ref \<Rightarrow> int \<Rightarrow> editor \<Rightarrow> exc option \<times> editor" where
  "MoveCursor_execute self buf target s =
     (case move_cursor target (buffers s buf) of
        (prev, b) \<Rightarrow>
          (None, s\<lparr>fld_prev := (fld_prev s)(self := Some prev),
                   buffers := (buffers s)(buf := b)\<rparr>))"

definition MoveCursor_undo :: "ref \<Rightarrow> ref \<Rightarrow> editor \<Rightarrow> exc option \<times> editor" where
  "MoveCursor_undo self buf s =
     (case fld_prev s self of
        None \<Rightarrow> (None, s)
      | Some prev \<Rightarrow> (None, s\<lparr>buffers := (buffers s)(buf := snd (move_cursor prev (buffers s buf)))\<rparr>))"

definition MoveCursor :: "ref \<Rightarrow> ref \<Rightarrow> int \<Rightarrow> editor undoable" where
  "MoveCursor self buf position =
     \<lparr>description = ''Move cursor to '' @ str_int position,
      execute = MoveCursor_execute self buf position,
      undo = MoveCursor_undo self buf\<rparr>"

subsection \<open>MacroCommand\<close>

text \<open>
  The macro's own field is the counter \<^verbatim>\<open>_executed\<close>; its state is the pair of the counter
  and the state of its items. \<^verbatim>\<open>execute\<close> has no handler: an exception of an item leaves
  the loop with the counter as it stands.
\<close>

fun macro_items :: "'s undoable list \<Rightarrow> nat \<times> 's \<Rightarrow> exc option \<times> nat \<times> 's" where
  "macro_items [] (n, s) = (None, (n, s))"
| "macro_items (cmd # rest) (n, s) =
     (case execute cmd s of
        (Some e, s') \<Rightarrow> (Some e, (n, s'))
      | (None, s') \<Rightarrow> macro_items rest (n + 1, s'))"

definition MacroCommand_execute :: "'s undoable list \<Rightarrow> nat \<times> 's \<Rightarrow> exc option \<times> nat \<times> 's" where
  "MacroCommand_execute items ns = macro_items items (0, snd ns)"

definition MacroCommand_undo :: "'s undoable list \<Rightarrow> nat \<times> 's \<Rightarrow> exc option \<times> nat \<times> 's" where
  "MacroCommand_undo items ns =
     (case undo_items (rev (take (fst ns) items)) (snd ns) of
        (Some e, s) \<Rightarrow> (Some e, (fst ns, s))
      | (None, s) \<Rightarrow> (None, (0, s)))"

definition MacroCommand :: "'s undoable list \<Rightarrow> (nat \<times> 's) undoable" where
  "MacroCommand items =
     \<lparr>description = ''Macro'',
      execute = MacroCommand_execute items,
      undo = MacroCommand_undo items\<rparr>"

section \<open>queued\_command\_bus: envelopes, the queue, the bus and the worker\<close>

record 's CommandEnvelope =
  env_command :: "'s command"
  env_retry_policy :: RetryPolicy
  attempts :: int
  last_error :: "string option"

definition queue_RetryPolicy :: RetryPolicy where
  "queue_RetryPolicy = \<lparr>max_retries = 3, backoff_seconds = 1\<rparr>"

text \<open>
  \<^verbatim>\<open>InMemoryQueue\<close> is a deque of envelopes, the head first. \<^verbatim>\<open>popleft\<close> on an empty deque
  raises \<^verbatim>\<open>IndexError\<close>, which \<^verbatim>\<open>dequeue\<close> raises again as \<^verbatim>\<open>EmptyQueueError\<close>.
\<close>

definition enqueue :: "'s CommandEnvelope \<Rightarrow> 's CommandEnvelope list \<Rightarrow> 's CommandEnvelope list" where
  "enqueue env q = q @ [env]"

definition dequeue :: "'s CommandEnvelope list \<Rightarrow> exc + 's CommandEnvelope \<times> 's CommandEnvelope list" where
  "dequeue q =
     (case q of
        [] \<Rightarrow> Inl (Exc EmptyQueueError ''Queue is empty.''
                    (Some (Exc IndexError ''pop from an empty deque'' None)))
      | env # rest \<Rightarrow> Inr (env, rest))"

text \<open>
  The queue and the worker's dead-letter list. \<^verbatim>\<open>CommandBus.send\<close> wraps the command in a
  new envelope; \<^verbatim>\<open>retry_policy or RetryPolicy()\<close> takes the default when none is given.
\<close>

record 's bus =
  queue :: "'s CommandEnvelope list"
  dead_letter :: "'s CommandEnvelope list"

definition new_bus :: "'s bus" where
  "new_bus = \<lparr>queue = [], dead_letter = []\<rparr>"

definition send :: "'s command \<Rightarrow> RetryPolicy option \<Rightarrow> 's bus \<Rightarrow> 's bus" where
  "send cmd policy w =
     w\<lparr>queue := enqueue
          \<lparr>env_command = cmd,
           env_retry_policy = (case policy of None \<Rightarrow> queue_RetryPolicy | Some p \<Rightarrow> p),
           attempts = 0,
           last_error = None\<rparr>
          (queue w)\<rparr>"

text \<open>
  \<^verbatim>\<open>repr(exc)\<close> of an exception built from one message: the class name and the quoted
  message. (Python quotes a message that itself holds a quote differently.)
\<close>

fun class_name :: "exc_class \<Rightarrow> string" where
  "class_name AccountError = ''AccountError''"
| "class_name TransactionError = ''TransactionError''"
| "class_name DeviceError = ''DeviceError''"
| "class_name CommandError = ''CommandError''"
| "class_name EmptyQueueError = ''EmptyQueueError''"
| "class_name IndexError = ''IndexError''"
| "class_name ValueError = ''ValueError''"
| "class_name RuntimeError = ''RuntimeError''"
| "class_name KeyboardInterrupt = ''KeyboardInterrupt''"

definition py_repr :: "exc \<Rightarrow> string" where
  "py_repr e = class_name (exc_class e) @ ''('' @ [CHR 0x27] @ message e @ [CHR 0x27] @ '')''"

text \<open>
  \<^verbatim>\<open>CommandWorker.poll_once\<close>. The first handler catches \<^verbatim>\<open>EmptyQueueError\<close> only, the second
  \<^verbatim>\<open>Exception\<close> only: any other exception leaves the method, with the envelope already
  taken off the queue.
\<close>

definition poll_once :: "'s bus \<Rightarrow> 's \<Rightarrow> (exc + bool) \<times> 's bus \<times> 's" where
  "poll_once w s =
     (case dequeue (queue w) of
        Inl e \<Rightarrow> if exc_class e = EmptyQueueError then (Inr False, (w, s)) else (Inl e, (w, s))
      | Inr (env, rest) \<Rightarrow>
          let w1 = w\<lparr>queue := rest\<rparr> in
          (case execute (env_command env) s of
             (None, s') \<Rightarrow> (Inr True, (w1, s'))
           | (Some e, s') \<Rightarrow>
               if \<not> is_Exception (exc_class e) then (Inl e, (w1, s'))
               else
                 let env1 = env\<lparr>attempts := attempts env + 1, last_error := Some (py_repr e)\<rparr> in
                 if attempts env1 \<le> max_retries (env_retry_policy env1)
                 then (Inr True, (w1\<lparr>queue := enqueue env1 (queue w1)\<rparr>, s'))
                 else (Inr True, (w1\<lparr>dead_letter := dead_letter w1 @ [env1]\<rparr>, s'))))"

text \<open>
  \<^verbatim>\<open>CommandWorker.drain\<close>: the loop \<^verbatim>\<open>while steps < max_steps and self.poll_once()\<close> with its
  two counters; it returns \<^verbatim>\<open>(processed, len(self._dead_letter))\<close>.
\<close>

function drain_loop ::
  "int \<Rightarrow> int \<Rightarrow> int \<Rightarrow> 's bus \<Rightarrow> 's \<Rightarrow> (exc + int \<times> int) \<times> 's bus \<times> 's" where
  "drain_loop max_steps processed steps w s =
     (if steps < max_steps then
        (case poll_once w s of
           (Inl e, (w', s')) \<Rightarrow> (Inl e, (w', s'))
         | (Inr True, (w', s')) \<Rightarrow> drain_loop max_steps (processed + 1) (steps + 1) w' s'
         | (Inr False, (w', s')) \<Rightarrow> (Inr (processed, int (length (dead_letter w'))), (w', s')))
      else (Inr (processed, int (length (dead_letter w))), (w, s)))"
  by pat_completeness auto
termination
  by (relation "measure (\<lambda>(max_steps, processed, steps, w, s). nat (max_steps - steps))") auto

declare drain_loop.simps [simp del]

definition drain :: "int \<Rightarrow> 's bus \<Rightarrow> 's \<Rightarrow> (exc + int \<times> int) \<times> 's bus \<times> 's" where
  "drain max_steps w s = drain_loop max_steps 0 0 w s"

subsection \<open>EmailService and SendEmailCommand\<close>

record EmailService =
  max_len :: int
  outbox :: "(string \<times> string \<times> string) list"

definition email_send :: "string \<Rightarrow> string \<Rightarrow> string \<Rightarrow> EmailService \<Rightarrow> exc + EmailService" where
  "email_send to subject body svc =
     (if to = [] then Inl (Exc ValueError ''Recipient is required.'' None)
      else if int (length subject) > max_len svc then Inl (Exc ValueError ''Subject too long.'' None)
      else Inr (svc\<lparr>outbox := outbox svc @ [(to, subject, body)]\<rparr>))"

definition SendEmailCommand_execute ::
  "string \<Rightarrow> string \<Rightarrow> string \<Rightarrow> EmailService \<Rightarrow> exc option \<times> EmailService" where
  "SendEmailCommand_execute to subject body svc =
     (case email_send to subject body svc of
        Inl e \<Rightarrow> (Some e, svc)
      | Inr svc' \<Rightarrow> (None, svc'))"

definition SendEmailCommand :: "string \<Rightarrow> string \<Rightarrow> string \<Rightarrow> EmailService command" where
  "SendEmailCommand to subject body =
     \<lparr>description = ''SendEmail(to='' @ to @ '')'',
      execute = SendEmailCommand_execute to subject body\<rparr>"

section \<open>Example inputs\<close>

text \<open>
  States right after the commands have been constructed (every \<^verbatim>\<open>_executed\<close> is false), and
  the command lists of the examples. In \<open>overdrawn_bank\<close> account A is already below its
  overdraft floor, so that the compensating withdrawal of a deposit to it raises. The device of
  \<open>faulty_plant\<close> simulates failures of \<^verbatim>\<open>set_param\<close> and \<^verbatim>\<open>disconnect\<close>; \<open>init_items\<close> are the
  three commands of the module's tests. \<open>new_PLCDevice\<close> is the constructor of \<^verbatim>\<open>PLCDevice\<close>.
\<close>

definition fresh_bank :: "(ref \<Rightarrow> BankAccount) \<Rightarrow> bank" where
  "fresh_bank accs = \<lparr>accounts = accs, fld_executed = (\<lambda>_. False)\<rparr>"

definition overdrawn_bank :: bank where
  "overdrawn_bank = fresh_bank ((\<lambda>_. \<lparr>name = ''B'', balance_cents = 0, overdraft_limit_cents = 0\<rparr>)
     (0 := \<lparr>name = ''A'', balance_cents = - 100, overdraft_limit_cents = 0\<rparr>))"

definition overdrawn_items :: "bank tx_command list" where
  "overdrawn_items = [DepositCommand overdrawn_bank 10 0 50, WithdrawCommand overdrawn_bank 11 1 1000]"

definition fresh_plant :: "PLCDevice \<Rightarrow> plant" where
  "fresh_plant dev = \<lparr>devices = (\<lambda>_. dev), cmd_executed = (\<lambda>_. False), cmd_prev = (\<lambda>_. PyNone),
     cmd_had_prev = (\<lambda>_. False), cmd_prev_program = (\<lambda>_. None)\<rparr>"

definition new_PLCDevice :: "string \<Rightarrow> (string \<rightharpoonup> bool) \<Rightarrow> PLCDevice" where
  "new_PLCDevice nm fail_on_subjects = \<lparr>device_name = nm, connected = False, params = Map.empty,
     running_program = None, fail_on = fail_on_subjects\<rparr>"

definition faulty_plant :: plant where
  "faulty_plant = fresh_plant (new_PLCDevice ''PLC'' [''set_param'' \<mapsto> True, ''disconnect'' \<mapsto> True])"

definition init_items :: "plant \<Rightarrow> plant device_command list" where
  "init_items s0 =
     [ConnectCommand s0 1 0 2 None,
      SetParameterCommand s0 2 0 ''speed'' (PyInt 42) None,
      StartProgramCommand s0 3 0 ''Main'' None]"

text \<open>A bank with empty accounts, and a deposit followed by a withdrawal that must fail.\<close>

definition small_bank :: bank where
  "small_bank = fresh_bank (\<lambda>_. \<lparr>name = ''A'', balance_cents = 0, overdraft_limit_cents = 0\<rparr>)"

definition small_items :: "bank tx_command list" where
  "small_items = [DepositCommand small_bank 10 0 100, WithdrawCommand small_bank 11 1 1000]"

text \<open>The two pairs of accounts of the ledger example (account A at 0, every other account is B).\<close>

definition rich_bank :: bank where
  "rich_bank = fresh_bank ((\<lambda>_. \<lparr>name = ''B'', balance_cents = 500, overdraft_limit_cents = 0\<rparr>)
     (0 := \<lparr>name = ''A'', balance_cents = 2000, overdraft_limit_cents = 0\<rparr>))"

definition poor_bank :: bank where
  "poor_bank = fresh_bank ((\<lambda>_. \<lparr>name = ''B'', balance_cents = 500, overdraft_limit_cents = 0\<rparr>)
     (0 := \<lparr>name = ''A'', balance_cents = 500, overdraft_limit_cents = 0\<rparr>))"

text \<open>
  A device that refuses every connection, a device without simulated failures, and a retry
  policy with two retries.
\<close>

definition refusing_plant :: plant where
  "refusing_plant = fresh_plant (new_PLCDevice ''PLC'' [''connect'' \<mapsto> True])"

definition healthy_plant :: plant where
  "healthy_plant = fresh_plant (new_PLCDevice ''PLC'' Map.empty)"

definition two_retries :: RetryPolicy where
  "two_retries = \<lparr>max_retries = 2, backoff_seconds = 0\<rparr>"

text \<open>
  An editor right after its commands have been constructed (no command has run), with one
  buffer; \<^verbatim>\<open>TextBuffer()\<close> is the empty buffer with the cursor at 0.
\<close>

definition fresh_editor :: "TextBuffer \<Rightarrow> editor" where
  "fresh_editor b = \<lparr>buffers = (\<lambda>_. b), fld_start_pos = (\<lambda>_. None), fld_deleted = (\<lambda>_. []),
     fld_prev = (\<lambda>_. None)\<rparr>"

definition empty_editor :: editor where
  "empty_editor = fresh_editor \<lparr>buf_text = [], cursor = 0\<rparr>"


text \<open>\<^verbatim>\<open>EmailService()\<close> with its default limit, and the retry policy of one retry.\<close>

definition new_EmailService :: EmailService where
  "new_EmailService = \<lparr>max_len = 120, outbox = []\<rparr>"

definition one_retry :: RetryPolicy where
  "one_retry = \<lparr>max_retries = 1, backoff_seconds = 1\<rparr>"

section \<open>The bus states a worker reaches\<close>




section \<open>The rollback of a failed composite\<close>

text \<open>
  The items a loop reaches are the items at the indices it counts: the reversed prefix
  \<^verbatim>\<open>reversed(items[:i])\<close> holds the items \<open>i - 1\<close>, ..., \<open>0\<close>.
\<close>

lemma take_nth_indices: "i \<le> length xs \<Longrightarrow> take i xs = map ((!) xs) [0..<i]"
  by (rule nth_equalityI) auto

lemma rev_take_nth: "i \<le> length xs \<Longrightarrow> rev (take i xs) = map ((!) xs) (rev [0..<i])"
  by (simp only: take_nth_indices rev_map)

lemma rollback_fold: "rollback xs s = fold (\<lambda>cmd s. snd (undo cmd s)) xs s"
  by (induction xs arbitrary: s) auto

lemma rollback_indices:
  "i \<le> length items \<Longrightarrow>
   rollback (rev (take i items)) s = fold (\<lambda>k s. snd (undo (items ! k) s)) (rev [0..<i]) s"
  by (simp only: rollback_fold rev_take_nth fold_map comp_def)

lemma rollback_executed_fold:
  "rollback_executed xs s = fold (\<lambda>cmd s. if executed cmd s then snd (undo cmd s) else s) xs s"
  by (induction xs arbitrary: s) auto

lemma rollback_executed_indices:
  "i \<le> length items \<Longrightarrow>
   rollback_executed (rev (take i items)) s =
     fold (\<lambda>k s. if executed (items ! k) s then snd (undo (items ! k) s) else s) (rev [0..<i]) s"
  by (simp only: rollback_executed_fold rev_take_nth fold_map comp_def)

text \<open>
  The loop of \<^verbatim>\<open>execute\<close> stops at the first item that raises: the state before item \<open>k\<close>
  is the state after the items before it, and the counter has then counted \<open>k\<close> items.
\<close>

lemma execute_items_first_failure:
  "i < length items \<Longrightarrow>
   (\<forall>k<i. fst (execute (items ! k) (fold (\<lambda>cmd s. snd (execute cmd s)) (take k items) s)) = None) \<Longrightarrow>
   execute (items ! i) (fold (\<lambda>cmd s. snd (execute cmd s)) (take i items) s) = (Some e, s') \<Longrightarrow>
   execute_items items (c, s) = (Some e, (c\<lparr>executed_count := executed_count c + i\<rparr>, s'))"
proof (induction items arbitrary: i c s)
  case Nil
  then show ?case by simp
next
  case (Cons x xs)
  show ?case
  proof (cases i)
    case 0
    with Cons.prems show ?thesis by simp
  next
    case (Suc j)
    from Cons.prems(2) Suc have x_ok: "fst (execute x s) = None"
      by (auto dest: spec [of _ 0])
    then obtain s1 where s1: "execute x s = (None, s1)"
      by (cases "execute x s") auto
    have oks: "\<forall>k<j. fst (execute (xs ! k) (fold (\<lambda>cmd s. snd (execute cmd s)) (take k xs) s1)) = None"
    proof (intro allI impI)
      fix k assume "k < j"
      with Cons.prems(2) Suc s1 show "fst (execute (xs ! k) (fold (\<lambda>cmd s. snd (execute cmd s)) (take k xs) s1)) = None"
        by (auto dest!: spec [of _ "Suc k"])
    qed
    have len: "j < length xs" using Cons.prems(1) Suc by simp
    have fails: "execute (xs ! j) (fold (\<lambda>cmd s. snd (execute cmd s)) (take j xs) s1) = (Some e, s')"
      using Cons.prems(3) Suc s1 by simp
    have "execute_items xs (c\<lparr>executed_count := executed_count c + 1\<rparr>, s1)
        = (Some e, (c\<lparr>executed_count := executed_count c + 1\<rparr>\<lparr>executed_count := executed_count (c\<lparr>executed_count := executed_count c + 1\<rparr>) + j\<rparr>, s'))"
      by (rule Cons.IH [OF len oks fails])
    with s1 Suc show ?thesis by simp
  qed
qed

lemma execute_items_failed:
  "execute_items items (c, s) = (Some e, (c', s')) \<Longrightarrow>
   \<exists>i<length items. c' = c\<lparr>executed_count := executed_count c + i\<rparr> \<and>
     (\<forall>k<i. fst (execute (items ! k) (fold (\<lambda>cmd s. snd (execute cmd s)) (take k items) s)) = None) \<and>
     execute (items ! i) (fold (\<lambda>cmd s. snd (execute cmd s)) (take i items) s) = (Some e, s')"
proof (induction items arbitrary: c s)
  case Nil
  then show ?case by simp
next
  case (Cons x xs)
  show ?case
  proof (cases "execute x s")
    case (Pair r s1)
    show ?thesis
    proof (cases r)
      case (Some e1)
      with Cons.prems Pair have "e1 = e" "c' = c" "s' = s1" by auto
      with Pair Some show ?thesis by (intro exI [of _ 0]) simp
    next
      case None
      with Cons.prems Pair
      have "execute_items xs (c\<lparr>executed_count := executed_count c + 1\<rparr>, s1) = (Some e, (c', s'))"
        by simp
      from Cons.IH [OF this] obtain j where j: "j < length xs"
        "c' = c\<lparr>executed_count := executed_count c + 1\<rparr>\<lparr>executed_count := executed_count (c\<lparr>executed_count := executed_count c + 1\<rparr>) + j\<rparr>"
        "\<forall>k<j. fst (execute (xs ! k) (fold (\<lambda>cmd s. snd (execute cmd s)) (take k xs) s1)) = None"
        "execute (xs ! j) (fold (\<lambda>cmd s. snd (execute cmd s)) (take j xs) s1) = (Some e, s')"
        by blast
      have "\<forall>k<Suc j. fst (execute ((x # xs) ! k) (fold (\<lambda>cmd s. snd (execute cmd s)) (take k (x # xs)) s)) = None"
      proof (intro allI impI)
        fix k assume k: "k < Suc j"
        show "fst (execute ((x # xs) ! k) (fold (\<lambda>cmd s. snd (execute cmd s)) (take k (x # xs)) s)) = None"
        proof (cases k)
          case 0
          with Pair None show ?thesis by simp
        next
          case (Suc k')
          with k j(3) Pair show ?thesis by simp
        qed
      qed
      with j Pair show ?thesis
        by (intro exI [of _ "Suc j"]) simp
    qed
  qed
qed

text \<open>The same for the loop of the device composite, which runs each item with its retries.\<close>

lemma run_items_first_failure:
  "i < length items \<Longrightarrow>
   (\<forall>k<i. success (fst (run (items ! k) (fold (\<lambda>cmd s. snd (run cmd s)) (take k items) s)))) \<Longrightarrow>
   run (items ! i) (fold (\<lambda>cmd s. snd (run cmd s)) (take i items) s) = (res, s') \<Longrightarrow>
   \<not> success res \<Longrightarrow>
   run_items items (c, s) =
     (Some (Exc CommandError (''Sub-command failed: '' @ description (items ! i)) (error res)),
      (c\<lparr>executed_count := executed_count c + i\<rparr>, s'))"
proof (induction items arbitrary: i c s)
  case Nil
  then show ?case by simp
next
  case (Cons x xs)
  show ?case
  proof (cases i)
    case 0
    with Cons.prems show ?thesis by simp
  next
    case (Suc j)
    obtain r1 s1 where s1: "run x s = (r1, s1)"
      by (cases "run x s") auto
    from Cons.prems(2) Suc s1 have x_ok: "success r1"
      by (auto dest: spec [of _ 0])
    have oks: "\<forall>k<j. success (fst (run (xs ! k) (fold (\<lambda>cmd s. snd (run cmd s)) (take k xs) s1)))"
    proof (intro allI impI)
      fix k assume "k < j"
      with Cons.prems(2) Suc s1 show "success (fst (run (xs ! k) (fold (\<lambda>cmd s. snd (run cmd s)) (take k xs) s1)))"
        by (auto dest!: spec [of _ "Suc k"])
    qed
    have len: "j < length xs" using Cons.prems(1) Suc by simp
    have fails: "run (xs ! j) (fold (\<lambda>cmd s. snd (run cmd s)) (take j xs) s1) = (res, s')"
      using Cons.prems(3) Suc s1 by simp
    have "run_items xs (c\<lparr>executed_count := executed_count c + 1\<rparr>, s1)
        = (Some (Exc CommandError (''Sub-command failed: '' @ description (xs ! j)) (error res)),
           (c\<lparr>executed_count := executed_count c + 1\<rparr>\<lparr>executed_count := executed_count (c\<lparr>executed_count := executed_count c + 1\<rparr>) + j\<rparr>, s'))"
      by (rule Cons.IH [OF len oks fails Cons.prems(4)])
    with s1 x_ok Suc show ?thesis by simp
  qed
qed

lemma run_items_failed:
  "run_items items (c, s) = (Some e, (c', s')) \<Longrightarrow>
   \<exists>i<length items. c' = c\<lparr>executed_count := executed_count c + i\<rparr> \<and>
     (\<forall>k<i. success (fst (run (items ! k) (fold (\<lambda>cmd s. snd (run cmd s)) (take k items) s)))) \<and>
     (\<exists>res. run (items ! i) (fold (\<lambda>cmd s. snd (run cmd s)) (take i items) s) = (res, s') \<and>
        \<not> success res \<and>
        e = Exc CommandError (''Sub-command failed: '' @ description (items ! i)) (error res))"
proof (induction items arbitrary: c s)
  case Nil
  then show ?case by simp
next
  case (Cons x xs)
  obtain r1 s1 where s1: "run x s = (r1, s1)"
    by (cases "run x s") auto
  show ?case
  proof (cases "success r1")
    case False
    with Cons.prems s1
    have "e = Exc CommandError (''Sub-command failed: '' @ description x) (error r1)" "c' = c" "s' = s1"
      by auto
    with s1 False show ?thesis by (intro exI [of _ 0]) simp
  next
    case True
    with Cons.prems s1
    have "run_items xs (c\<lparr>executed_count := executed_count c + 1\<rparr>, s1) = (Some e, (c', s'))"
      by simp
    from Cons.IH [OF this] obtain j res where j: "j < length xs"
      "c' = c\<lparr>executed_count := executed_count c + 1\<rparr>\<lparr>executed_count := executed_count (c\<lparr>executed_count := executed_count c + 1\<rparr>) + j\<rparr>"
      "\<forall>k<j. success (fst (run (xs ! k) (fold (\<lambda>cmd s. snd (run cmd s)) (take k xs) s1)))"
      "run (xs ! j) (fold (\<lambda>cmd s. snd (run cmd s)) (take j xs) s1) = (res, s')"
      "\<not> success res"
      "e = Exc CommandError (''Sub-command failed: '' @ description (xs ! j)) (error res)"
      by blast
    have "\<forall>k<Suc j. success (fst (run ((x # xs) ! k) (fold (\<lambda>cmd s. snd (run cmd s)) (take k (x # xs)) s)))"
    proof (intro allI impI)
      fix k assume k: "k < Suc j"
      show "success (fst (run ((x # xs) ! k) (fold (\<lambda>cmd s. snd (run cmd s)) (take k (x # xs)) s)))"
      proof (cases k)
        case 0
        with s1 True show ?thesis by simp
      next
        case (Suc k')
        with k j(3) s1 show ?thesis by simp
      qed
    qed
    with j s1 show ?thesis
      by (intro exI [of _ "Suc j"]) simp
  qed
qed

section \<open>Claims on the atomic composite\<close>

text \<open>Unfolding the bank's and the device's commands, for the examples.\<close>

lemmas bank_defs = fresh_bank_def DepositCommand_def WithdrawCommand_def
  DepositCommand_execute_def DepositCommand_undo_def WithdrawCommand_execute_def
  WithdrawCommand_undo_def deposit_def withdraw_def

lemmas device_defs = fresh_plant_def new_PLCDevice_def ConnectCommand_def DisconnectCommand_def
  DisconnectCommand_execute_def
  SetParameterCommand_def StartProgramCommand_def StopProgramCommand_def
  ConnectCommand_execute_def ConnectCommand_undo_def SetParameterCommand_execute_def
  SetParameterCommand_undo_def StartProgramCommand_execute_def StartProgramCommand_undo_def
  StopProgramCommand_execute_def StopProgramCommand_undo_def
  connect_def disconnect_def set_param_def start_program_def stop_program_def fails_def
  write_executed_def default_RetryPolicy_def run_def run_loop.simps

text \<open>
  C1 (as amended). When item \<open>i\<close> is the first whose \<^verbatim>\<open>execute\<close> raises (first whose \<^verbatim>\<open>run\<close> fails, in
  \<^verbatim>\<open>device_command_runner\<close>), the composite raises and leaves the state that results from
  undoing the items \<open>i - 1\<close>, ..., \<open>0\<close> in this order, whatever these undo calls raise being dropped.
  In \<^verbatim>\<open>atomic_transfer_command\<close> every one of them is undone and the \<^verbatim>\<open>TransactionError\<close> raised
  has the item's exception as its cause. In \<^verbatim>\<open>device_command_runner\<close> an item is undone when its
  \<^verbatim>\<open>executed\<close> flag is set, and the cause of the \<^verbatim>\<open>CommandError\<close> raised is the intermediate
  \<^verbatim>\<open>CommandError\<close> "Sub-command failed", whose cause is the error of the failed run.
\<close>

theorem composite_failure_rolls_back_in_reverse:
  "(i < length items \<and>
    (\<forall>k<i. fst (execute (items ! k) (fold (\<lambda>cmd s. snd (execute cmd s)) (take k items) s)) = None) \<and>
    execute (items ! i) (fold (\<lambda>cmd s. snd (execute cmd s)) (take i items) s) = (Some e, s1)
    \<longrightarrow>
    fst (AtomicCompositeCommand_execute items (c, s)) =
      Some (Exc TransactionError ''Atomic composite failed and was rolled back.'' (Some e)) \<and>
    snd (snd (AtomicCompositeCommand_execute items (c, s))) =
      fold (\<lambda>k s. snd (undo (items ! k) s)) (rev [0..<i]) s1)
   \<and>
   (j < length ditems \<and>
    (\<forall>k<j. success (fst (run (ditems ! k) (fold (\<lambda>cmd s. snd (run cmd s)) (take k ditems) t)))) \<and>
    run (ditems ! j) (fold (\<lambda>cmd s. snd (run cmd s)) (take j ditems) t) = (res, t1) \<and>
    \<not> success res
    \<longrightarrow>
    fst (Device_AtomicCompositeCommand_execute descr ditems (d, t)) =
      Some (Exc CommandError
              (''Composite '' @ [CHR 0x27] @ descr @ [CHR 0x27] @ '' rolled back due to failure.'')
              (Some (Exc CommandError (''Sub-command failed: '' @ description (ditems ! j)) (error res)))) \<and>
    snd (snd (Device_AtomicCompositeCommand_execute descr ditems (d, t))) =
      fold (\<lambda>k s. if executed (ditems ! k) s then snd (undo (ditems ! k) s) else s) (rev [0..<j]) t1)"
proof (intro conjI impI)
  assume h: "i < length items \<and>
    (\<forall>k<i. fst (execute (items ! k) (fold (\<lambda>cmd s. snd (execute cmd s)) (take k items) s)) = None) \<and>
    execute (items ! i) (fold (\<lambda>cmd s. snd (execute cmd s)) (take i items) s) = (Some e, s1)"
  then have loop: "execute_items items (c\<lparr>executed_count := 0\<rparr>, s) =
      (Some e, (c\<lparr>executed_count := 0\<rparr>\<lparr>executed_count := executed_count (c\<lparr>executed_count := 0\<rparr>) + i\<rparr>, s1))"
    by (intro execute_items_first_failure) auto
  from h have le: "i \<le> length items" by simp
  show "fst (AtomicCompositeCommand_execute items (c, s)) =
      Some (Exc TransactionError ''Atomic composite failed and was rolled back.'' (Some e))"
    using loop by (simp add: AtomicCompositeCommand_execute_def)
  show "snd (snd (AtomicCompositeCommand_execute items (c, s))) =
      fold (\<lambda>k s. snd (undo (items ! k) s)) (rev [0..<i]) s1"
    using loop by (simp add: AtomicCompositeCommand_execute_def rollback_indices [OF le])
next
  assume h: "j < length ditems \<and>
    (\<forall>k<j. success (fst (run (ditems ! k) (fold (\<lambda>cmd s. snd (run cmd s)) (take k ditems) t)))) \<and>
    run (ditems ! j) (fold (\<lambda>cmd s. snd (run cmd s)) (take j ditems) t) = (res, t1) \<and>
    \<not> success res"
  then have loop: "run_items ditems (d\<lparr>executed_count := 0\<rparr>, t) =
      (Some (Exc CommandError (''Sub-command failed: '' @ description (ditems ! j)) (error res)),
       (d\<lparr>executed_count := 0\<rparr>\<lparr>executed_count := executed_count (d\<lparr>executed_count := 0\<rparr>) + j\<rparr>, t1))"
    by (intro run_items_first_failure) auto
  from h have le: "j \<le> length ditems" by simp
  show "fst (Device_AtomicCompositeCommand_execute descr ditems (d, t)) =
      Some (Exc CommandError
              (''Composite '' @ [CHR 0x27] @ descr @ [CHR 0x27] @ '' rolled back due to failure.'')
              (Some (Exc CommandError (''Sub-command failed: '' @ description (ditems ! j)) (error res))))"
    using loop by (simp add: Device_AtomicCompositeCommand_execute_def)
  show "snd (snd (Device_AtomicCompositeCommand_execute descr ditems (d, t))) =
      fold (\<lambda>k s. if executed (ditems ! k) s then snd (undo (ditems ! k) s) else s) (rev [0..<j]) t1"
    using loop by (simp add: Device_AtomicCompositeCommand_execute_def rollback_executed_indices [OF le])
qed

text \<open>
  At the example inputs: the second item fails, the undo of the first raises too (the
  account stays at -50, the device stays connected), and the composite's error is raised
  all the same.
\<close>

theorem composite_failure_rolls_back_witness:
  "fst (AtomicCompositeCommand_execute overdrawn_items (new_composite, overdrawn_bank)) =
     Some (Exc TransactionError ''Atomic composite failed and was rolled back.''
       (Some (Exc AccountError ''Insufficient funds (overdraft limit exceeded).'' None))) \<and>
   fst (undo (overdrawn_items ! 0) (snd (execute (overdrawn_items ! 0) overdrawn_bank))) =
     Some (Exc AccountError ''Insufficient funds (overdraft limit exceeded).'' None) \<and>
   balance_cents (accounts (snd (snd (AtomicCompositeCommand_execute overdrawn_items
     (new_composite, overdrawn_bank)))) 0) = - 50 \<and>
   fst (Device_AtomicCompositeCommand_execute ''init'' (init_items faulty_plant) (new_composite, faulty_plant)) =
     Some (Exc CommandError ''Composite 'init' rolled back due to failure.''
       (Some (Exc CommandError ''Sub-command failed: SetParam(PLC.speed=42)''
          (Some (Exc DeviceError ''[PLC] Simulated set_param failure.'' None))))) \<and>
   connected (devices (snd (snd (Device_AtomicCompositeCommand_execute ''init'' (init_items faulty_plant)
     (new_composite, faulty_plant)))) 0)"
  using composite_failure_rolls_back_in_reverse
    [where i = 1 and items = overdrawn_items and s = overdrawn_bank
       and e = "Exc AccountError ''Insufficient funds (overdraft limit exceeded).'' None"
       and ?s1.0 = "snd (execute (overdrawn_items ! 0) overdrawn_bank)"
       and c = new_composite
       and j = 1 and ditems = "init_items faulty_plant" and t = faulty_plant
       and res = "\<lparr>success = False, result_value = None,
            error = Some (Exc DeviceError ''[PLC] Simulated set_param failure.'' None)\<rparr>"
       and ?t1.0 = "snd (run (init_items faulty_plant ! 0) faulty_plant)"
       and descr = "''init''" and d = new_composite]
  by (simp add: overdrawn_items_def overdrawn_bank_def bank_defs init_items_def faulty_plant_def
      device_defs str_int_def str_nat.simps)

text \<open>
  C1 as the spec states it fails in \<^verbatim>\<open>device_command_runner\<close>: there the item's own exception is
  not the cause of the error the composite raises, but the cause of its cause.
\<close>

theorem device_cause_is_not_the_original_exception:
  "success (fst (run (init_items faulty_plant ! 0) faulty_plant)) \<and>
   fst (execute (init_items faulty_plant ! 1) (snd (run (init_items faulty_plant ! 0) faulty_plant))) =
     Some (Exc DeviceError ''[PLC] Simulated set_param failure.'' None) \<and>
   (\<exists>err. fst (execute (Device_AtomicCompositeCommand ''init'' (init_items faulty_plant))
                (new_composite, faulty_plant)) = Some err \<and>
      cause err \<noteq> Some (Exc DeviceError ''[PLC] Simulated set_param failure.'' None))"
  by (simp add: Device_AtomicCompositeCommand_def Device_AtomicCompositeCommand_execute_def
      init_items_def faulty_plant_def device_defs str_int_def str_nat.simps)

text \<open>
  C2 as the spec states it fails: a failed \<^verbatim>\<open>execute\<close> does not reset \<^verbatim>\<open>_executed_count\<close>, which
  still counts the items that had succeeded.
\<close>

theorem failed_execute_keeps_the_count:
  "fst (execute (AtomicCompositeCommand ''two steps'' small_items) (new_composite, small_bank)) \<noteq> None \<and>
   executed_count (fst (snd (execute (AtomicCompositeCommand ''two steps'' small_items)
     (new_composite, small_bank)))) = 1"
  by (simp add: AtomicCompositeCommand_def AtomicCompositeCommand_execute_def new_composite_def
      small_items_def small_bank_def bank_defs)

text \<open>
  C2 (as amended). After \<^verbatim>\<open>execute\<close> of a composite has raised, \<^verbatim>\<open>_executed\<close> is false and
  \<^verbatim>\<open>_executed_count\<close> is the index \<open>i\<close> of the first item that failed: the items before it had
  succeeded, item \<open>i\<close> raised (its run failed, in \<^verbatim>\<open>device_command_runner\<close>), and the state is the
  one left by undoing the items \<open>i - 1\<close>, ..., \<open>0\<close> in this order after that failure (in
  \<^verbatim>\<open>device_command_runner\<close>: those whose \<^verbatim>\<open>executed\<close> flag is set).
\<close>

theorem failed_execute_state:
  "(fst (AtomicCompositeCommand_execute items (c, s)) \<noteq> None \<longrightarrow>
     (let c' = fst (snd (AtomicCompositeCommand_execute items (c, s)));
          s' = snd (snd (AtomicCompositeCommand_execute items (c, s)));
          i = executed_count c';
          before = (\<lambda>k. fold (\<lambda>cmd s. snd (execute cmd s)) (take k items) s)
      in \<not> executed_flag c' \<and> i < length items \<and>
         (\<forall>k<i. fst (execute (items ! k) (before k)) = None) \<and>
         fst (execute (items ! i) (before i)) \<noteq> None \<and>
         s' = fold (\<lambda>k s. snd (undo (items ! k) s)) (rev [0..<i]) (snd (execute (items ! i) (before i)))))
   \<and>
   (fst (Device_AtomicCompositeCommand_execute descr ditems (d, t)) \<noteq> None \<longrightarrow>
     (let d' = fst (snd (Device_AtomicCompositeCommand_execute descr ditems (d, t)));
          t' = snd (snd (Device_AtomicCompositeCommand_execute descr ditems (d, t)));
          j = executed_count d';
          before = (\<lambda>k. fold (\<lambda>cmd s. snd (run cmd s)) (take k ditems) t)
      in \<not> executed_flag d' \<and> j < length ditems \<and>
         (\<forall>k<j. success (fst (run (ditems ! k) (before k)))) \<and>
         \<not> success (fst (run (ditems ! j) (before j))) \<and>
         t' = fold (\<lambda>k s. if executed (ditems ! k) s then snd (undo (ditems ! k) s) else s)
                (rev [0..<j]) (snd (run (ditems ! j) (before j)))))"
proof (intro conjI impI)
  assume failed: "fst (AtomicCompositeCommand_execute items (c, s)) \<noteq> None"
  obtain r c1 s1 where loop: "execute_items items (c\<lparr>executed_count := 0\<rparr>, s) = (r, (c1, s1))"
    by (metis prod.exhaust)
  with failed obtain e where r: "r = Some e"
    by (cases r) (auto simp: AtomicCompositeCommand_execute_def)
  from execute_items_failed [OF loop [unfolded r]] obtain i where i: "i < length items"
    "c1 = c\<lparr>executed_count := 0\<rparr>\<lparr>executed_count := executed_count (c\<lparr>executed_count := 0\<rparr>) + i\<rparr>"
    "\<forall>k<i. fst (execute (items ! k) (fold (\<lambda>cmd s. snd (execute cmd s)) (take k items) s)) = None"
    "execute (items ! i) (fold (\<lambda>cmd s. snd (execute cmd s)) (take i items) s) = (Some e, s1)"
    by blast
  from i(1) have le: "i \<le> length items" by simp
  have res: "AtomicCompositeCommand_execute items (c, s) =
      (Some (Exc TransactionError ''Atomic composite failed and was rolled back.'' (Some e)),
       (c\<lparr>executed_count := i, executed_flag := False\<rparr>,
        fold (\<lambda>k s. snd (undo (items ! k) s)) (rev [0..<i]) s1))"
    using loop r i(2) by (simp add: AtomicCompositeCommand_execute_def rollback_indices [OF le])
  show "let c' = fst (snd (AtomicCompositeCommand_execute items (c, s)));
          s' = snd (snd (AtomicCompositeCommand_execute items (c, s)));
          i = executed_count c';
          before = (\<lambda>k. fold (\<lambda>cmd s. snd (execute cmd s)) (take k items) s)
      in \<not> executed_flag c' \<and> i < length items \<and>
         (\<forall>k<i. fst (execute (items ! k) (before k)) = None) \<and>
         fst (execute (items ! i) (before i)) \<noteq> None \<and>
         s' = fold (\<lambda>k s. snd (undo (items ! k) s)) (rev [0..<i]) (snd (execute (items ! i) (before i)))"
    using i(1,3,4) by (simp add: res Let_def)
next
  assume failed: "fst (Device_AtomicCompositeCommand_execute descr ditems (d, t)) \<noteq> None"
  obtain r d1 t1 where loop: "run_items ditems (d\<lparr>executed_count := 0\<rparr>, t) = (r, (d1, t1))"
    by (metis prod.exhaust)
  with failed obtain e where r: "r = Some e"
    by (cases r) (auto simp: Device_AtomicCompositeCommand_execute_def)
  from run_items_failed [OF loop [unfolded r]] obtain j res where j: "j < length ditems"
    "d1 = d\<lparr>executed_count := 0\<rparr>\<lparr>executed_count := executed_count (d\<lparr>executed_count := 0\<rparr>) + j\<rparr>"
    "\<forall>k<j. success (fst (run (ditems ! k) (fold (\<lambda>cmd s. snd (run cmd s)) (take k ditems) t)))"
    "run (ditems ! j) (fold (\<lambda>cmd s. snd (run cmd s)) (take j ditems) t) = (res, t1)"
    "\<not> success res"
    by blast
  from j(1) have le: "j \<le> length ditems" by simp
  have res: "snd (Device_AtomicCompositeCommand_execute descr ditems (d, t)) =
       (d\<lparr>executed_count := j, executed_flag := False\<rparr>,
        fold (\<lambda>k s. if executed (ditems ! k) s then snd (undo (ditems ! k) s) else s) (rev [0..<j]) t1)"
    using loop r j(2) by (simp add: Device_AtomicCompositeCommand_execute_def rollback_executed_indices [OF le])
  show "let d' = fst (snd (Device_AtomicCompositeCommand_execute descr ditems (d, t)));
          t' = snd (snd (Device_AtomicCompositeCommand_execute descr ditems (d, t)));
          j = executed_count d';
          before = (\<lambda>k. fold (\<lambda>cmd s. snd (run cmd s)) (take k ditems) t)
      in \<not> executed_flag d' \<and> j < length ditems \<and>
         (\<forall>k<j. success (fst (run (ditems ! k) (before k)))) \<and>
         \<not> success (fst (run (ditems ! j) (before j))) \<and>
         t' = fold (\<lambda>k s. if executed (ditems ! k) s then snd (undo (ditems ! k) s) else s)
                (rev [0..<j]) (snd (run (ditems ! j) (before j)))"
    using j(1,3,4,5) by (simp add: res Let_def)
qed

text \<open>
  At the example inputs: the counter is 1 in both modules, and the bank is as it was before
  the composite ran.
\<close>

theorem failed_execute_state_witness:
  "fst (AtomicCompositeCommand_execute small_items (new_composite, small_bank)) \<noteq> None \<and>
   executed_count (fst (snd (AtomicCompositeCommand_execute small_items (new_composite, small_bank)))) = 1 \<and>
   \<not> executed_flag (fst (snd (AtomicCompositeCommand_execute small_items (new_composite, small_bank)))) \<and>
   snd (snd (AtomicCompositeCommand_execute small_items (new_composite, small_bank))) = small_bank \<and>
   fst (Device_AtomicCompositeCommand_execute ''init'' (init_items faulty_plant) (new_composite, faulty_plant)) \<noteq> None \<and>
   executed_count (fst (snd (Device_AtomicCompositeCommand_execute ''init'' (init_items faulty_plant)
     (new_composite, faulty_plant)))) = 1"
  using failed_execute_state [where items = small_items and c = new_composite and s = small_bank
      and descr = "''init''" and ditems = "init_items faulty_plant" and d = new_composite and t = faulty_plant]
  by (simp add: AtomicCompositeCommand_execute_def Device_AtomicCompositeCommand_execute_def
      new_composite_def small_items_def small_bank_def bank_defs
      init_items_def faulty_plant_def device_defs str_int_def str_nat.simps fun_upd_idem_iff)

section \<open>Claims on the bank transfer\<close>

text \<open>
  C7. Transferring 1000 from an account with balance 2000 to another account with balance 500
  returns normally and leaves the balances 1000 and 1500. Transferring 1000 from an account
  with balance 500 and no overdraft raises the \<^verbatim>\<open>TransactionError\<close> (caused by the
  \<^verbatim>\<open>AccountError\<close> of the withdrawal) and leaves the bank as it was: both balances are 500.
\<close>

theorem transfer_example:
  "(src \<noteq> dst \<and>
    accounts s src = \<lparr>name = a, balance_cents = 2000, overdraft_limit_cents = 0\<rparr> \<and>
    accounts s dst = \<lparr>name = b, balance_cents = 500, overdraft_limit_cents = 0\<rparr>
    \<longrightarrow>
    fst (execute (TransferCommand s w d src dst 1000) (c, s)) = None \<and>
    balance_cents (accounts (snd (snd (execute (TransferCommand s w d src dst 1000) (c, s)))) src) = 1000 \<and>
    balance_cents (accounts (snd (snd (execute (TransferCommand s w d src dst 1000) (c, s)))) dst) = 1500)
   \<and>
   (accounts s' src = \<lparr>name = a, balance_cents = 500, overdraft_limit_cents = 0\<rparr> \<and>
    accounts s' dst = \<lparr>name = b, balance_cents = 500, overdraft_limit_cents = 0\<rparr>
    \<longrightarrow>
    fst (execute (TransferCommand s' w d src dst 1000) (c, s')) =
      Some (Exc TransactionError ''Atomic composite failed and was rolled back.''
        (Some (Exc AccountError ''Insufficient funds (overdraft limit exceeded).'' None))) \<and>
    snd (snd (execute (TransferCommand s' w d src dst 1000) (c, s'))) = s' \<and>
    balance_cents (accounts (snd (snd (execute (TransferCommand s' w d src dst 1000) (c, s')))) src) = 500 \<and>
    balance_cents (accounts (snd (snd (execute (TransferCommand s' w d src dst 1000) (c, s')))) dst) = 500)"
  by (simp add: TransferCommand_def AtomicCompositeCommand_def AtomicCompositeCommand_execute_def
      DepositCommand_def WithdrawCommand_def DepositCommand_execute_def WithdrawCommand_execute_def
      deposit_def withdraw_def)

text \<open>The two transfers of the module's tests.\<close>

theorem transfer_example_witness:
  "fst (execute (TransferCommand rich_bank 10 11 0 1 1000) (new_composite, rich_bank)) = None \<and>
   balance_cents (accounts (snd (snd (execute (TransferCommand rich_bank 10 11 0 1 1000)
     (new_composite, rich_bank)))) 0) = 1000 \<and>
   balance_cents (accounts (snd (snd (execute (TransferCommand rich_bank 10 11 0 1 1000)
     (new_composite, rich_bank)))) 1) = 1500 \<and>
   fst (execute (TransferCommand poor_bank 10 11 0 1 1000) (new_composite, poor_bank)) =
      Some (Exc TransactionError ''Atomic composite failed and was rolled back.''
        (Some (Exc AccountError ''Insufficient funds (overdraft limit exceeded).'' None))) \<and>
   balance_cents (accounts (snd (snd (execute (TransferCommand poor_bank 10 11 0 1 1000)
     (new_composite, poor_bank)))) 0) = 500 \<and>
   balance_cents (accounts (snd (snd (execute (TransferCommand poor_bank 10 11 0 1 1000)
     (new_composite, poor_bank)))) 1) = 500"
  using transfer_example [where src = 0 and dst = 1 and s = rich_bank and a = "''A''" and b = "''B''"
      and w = 10 and d = 11 and c = new_composite and s' = poor_bank]
  by (simp add: rich_bank_def poor_bank_def fresh_bank_def)

section \<open>Claims on the retry loop\<close>

text \<open>
  The loop of \<^verbatim>\<open>run\<close>, with \<open>m\<close> attempts left: when each of them raises, the result carries the
  error of the last one (the value of \<^verbatim>\<open>last_exc\<close> when no attempt is left); when attempt \<open>k\<close> is
  the first that returns, the loop ends there. \<open>f\<close> is the state change of one call of
  \<^verbatim>\<open>execute\<close>.
\<close>

lemma run_loop_all_fail:
  "(\<forall>s. snd (execute cmd s) = f s) \<Longrightarrow>
   (\<forall>k<m. fst (execute cmd ((f ^^ k) s)) \<noteq> None) \<Longrightarrow>
   total_tries = tried + int m \<Longrightarrow>
   run_loop cmd total_tries tried last_exc s =
     (\<lparr>success = False, result_value = None,
       error = (if m = 0 then last_exc else fst (execute cmd ((f ^^ (m - 1)) s)))\<rparr>,
      (f ^^ m) s)"
proof (induction m arbitrary: tried last_exc s)
  case 0
  then show ?case by (simp add: run_loop.simps)
next
  case (Suc m)
  from Suc.prems(2) have "fst (execute cmd s) \<noteq> None"
    by (auto dest: spec [of _ 0])
  with Suc.prems(1) obtain e where first: "execute cmd s = (Some e, f s)"
    by (cases "execute cmd s") (auto dest: spec [of _ s])
  have rest: "\<forall>k<m. fst (execute cmd ((f ^^ k) (f s))) \<noteq> None"
  proof (intro allI impI)
    fix k assume "k < m"
    then have "Suc k < Suc m" by simp
    from Suc.prems(2) [rule_format, OF this]
    show "fst (execute cmd ((f ^^ k) (f s))) \<noteq> None"
      by (simp add: funpow_swap1)
  qed
  have tries: "total_tries = (tried + 1) + int m" using Suc.prems(3) by simp
  have "run_loop cmd total_tries tried last_exc s = run_loop cmd total_tries (tried + 1) (Some e) (f s)"
    using Suc.prems(3) first by (subst run_loop.simps) simp
  also have "\<dots> = (\<lparr>success = False, result_value = None,
       error = (if m = 0 then Some e else fst (execute cmd ((f ^^ (m - 1)) (f s))))\<rparr>,
      (f ^^ m) (f s))"
    by (rule Suc.IH [OF Suc.prems(1) rest tries])
  also have "\<dots> = (\<lparr>success = False, result_value = None,
       error = fst (execute cmd ((f ^^ m) s))\<rparr>, (f ^^ Suc m) s)"
  proof (cases m)
    case 0
    with first show ?thesis by simp
  next
    case (Suc m')
    show ?thesis unfolding Suc by (simp only: funpow_Suc_right comp_apply diff_Suc_1 nat.simps if_False)
  qed
  finally show ?case by simp
qed

lemma run_loop_first_success:
  "(\<forall>s. snd (execute cmd s) = f s) \<Longrightarrow>
   k < m \<Longrightarrow>
   (\<forall>j<k. fst (execute cmd ((f ^^ j) s)) \<noteq> None) \<Longrightarrow>
   fst (execute cmd ((f ^^ k) s)) = None \<Longrightarrow>
   total_tries = tried + int m \<Longrightarrow>
   run_loop cmd total_tries tried last_exc s =
     (\<lparr>success = True, result_value = None, error = None\<rparr>, set_executed cmd True ((f ^^ Suc k) s))"
proof (induction k arbitrary: m tried last_exc s)
  case 0
  then have "execute cmd s = (None, f s)"
    by (cases "execute cmd s") (auto dest: spec [of _ s])
  with "0.prems" show ?case by (subst run_loop.simps) simp
next
  case (Suc k)
  from Suc.prems(3) have "fst (execute cmd s) \<noteq> None"
    by (auto dest: spec [of _ 0])
  with Suc.prems(1) obtain e where first: "execute cmd s = (Some e, f s)"
    by (cases "execute cmd s") (auto dest: spec [of _ s])
  obtain m' where m': "m = Suc m'" using Suc.prems(2) by (cases m) auto
  have less: "k < m'" using Suc.prems(2) m' by simp
  have rest: "\<forall>j<k. fst (execute cmd ((f ^^ j) (f s))) \<noteq> None"
  proof (intro allI impI)
    fix j assume "j < k"
    then have "Suc j < Suc k" by simp
    from Suc.prems(3) [rule_format, OF this]
    show "fst (execute cmd ((f ^^ j) (f s))) \<noteq> None"
      by (simp add: funpow_swap1)
  qed
  have ok: "fst (execute cmd ((f ^^ k) (f s))) = None"
    using Suc.prems(4) by (simp only: funpow_Suc_right comp_apply)
  have tries: "total_tries = (tried + 1) + int m'" using Suc.prems(5) m' by simp
  have "run_loop cmd total_tries tried last_exc s = run_loop cmd total_tries (tried + 1) (Some e) (f s)"
    using Suc.prems(5) m' first by (subst run_loop.simps) simp
  also have "\<dots> = (\<lparr>success = True, result_value = None, error = None\<rparr>,
      set_executed cmd True ((f ^^ Suc k) (f s)))"
    by (rule Suc.IH [OF Suc.prems(1) less rest ok tries])
  finally show ?case by (simp only: funpow_Suc_right comp_apply)
qed

text \<open>
  C5. With a retry policy of \<open>N \<ge> 0\<close> retries, when each of the \<open>N + 1\<close> calls of \<^verbatim>\<open>execute\<close> raises,
  \<^verbatim>\<open>run\<close> returns a failure result that carries the error of the last call, and the state is the
  one after exactly \<open>N + 1\<close> calls. When call \<open>k\<close> (\<open>k \<le> N\<close>, counted from 0) is the first that
  returns, \<^verbatim>\<open>run\<close> returns the success result after exactly \<open>k + 1\<close> calls and has set
  \<^verbatim>\<open>_executed\<close>. \<^verbatim>\<open>run\<close> raises nothing: it catches \<^verbatim>\<open>BaseException\<close>, so its model has a result and
  a state and no exception.
\<close>

theorem run_retries:
  "(0 \<le> max_retries (retry_policy cmd) \<and>
    (\<forall>k\<le>nat (max_retries (retry_policy cmd)).
        fst (execute cmd (((\<lambda>s. snd (execute cmd s)) ^^ k) s)) \<noteq> None)
    \<longrightarrow>
    run cmd s =
      (\<lparr>success = False, result_value = None,
        error = fst (execute cmd (((\<lambda>s. snd (execute cmd s)) ^^ nat (max_retries (retry_policy cmd))) s))\<rparr>,
       ((\<lambda>s. snd (execute cmd s)) ^^ (nat (max_retries (retry_policy cmd)) + 1)) s))
   \<and>
   (k \<le> nat (max_retries (retry_policy cmd)) \<and>
    (\<forall>j<k. fst (execute cmd (((\<lambda>s. snd (execute cmd s)) ^^ j) s)) \<noteq> None) \<and>
    fst (execute cmd (((\<lambda>s. snd (execute cmd s)) ^^ k) s)) = None
    \<longrightarrow>
    run cmd s =
      (\<lparr>success = True, result_value = None, error = None\<rparr>,
       set_executed cmd True (((\<lambda>s. snd (execute cmd s)) ^^ (k + 1)) s)))"
proof (intro conjI impI)
  let ?f = "\<lambda>s. snd (execute cmd s)"
  let ?m = "Suc (nat (max_retries (retry_policy cmd)))"
  assume h: "0 \<le> max_retries (retry_policy cmd) \<and>
    (\<forall>k\<le>nat (max_retries (retry_policy cmd)). fst (execute cmd ((?f ^^ k) s)) \<noteq> None)"
  have step: "\<forall>s. snd (execute cmd s) = ?f s" by simp
  from h have fails: "\<forall>k<?m. fst (execute cmd ((?f ^^ k) s)) \<noteq> None"
    by (simp add: less_Suc_eq_le)
  from h have tries: "1 + max 0 (max_retries (retry_policy cmd)) = 0 + int ?m"
    by simp
  show "run cmd s =
      (\<lparr>success = False, result_value = None,
        error = fst (execute cmd ((?f ^^ nat (max_retries (retry_policy cmd))) s))\<rparr>,
       (?f ^^ (nat (max_retries (retry_policy cmd)) + 1)) s)"
    unfolding run_def using run_loop_all_fail [OF step fails tries, of None] by simp
next
  let ?f = "\<lambda>s. snd (execute cmd s)"
  let ?m = "Suc (nat (max_retries (retry_policy cmd)))"
  assume h: "k \<le> nat (max_retries (retry_policy cmd)) \<and>
    (\<forall>j<k. fst (execute cmd ((?f ^^ j) s)) \<noteq> None) \<and>
    fst (execute cmd ((?f ^^ k) s)) = None"
  have step: "\<forall>s. snd (execute cmd s) = ?f s" by simp
  from h have less: "k < ?m" by simp
  from h have fails: "\<forall>j<k. fst (execute cmd ((?f ^^ j) s)) \<noteq> None"
    by simp
  from h have ok: "fst (execute cmd ((?f ^^ k) s)) = None"
    by simp
  have tries: "1 + max 0 (max_retries (retry_policy cmd)) = 0 + int ?m"
    by simp
  show "run cmd s =
      (\<lparr>success = True, result_value = None, error = None\<rparr>,
       set_executed cmd True ((?f ^^ (k + 1)) s))"
    unfolding run_def using run_loop_first_success [OF step less fails ok tries, of None] by simp
qed

text \<open>
  A connection that the device refuses is tried three times under a policy of two retries and
  fails with the device's error; on a device without failures the first attempt succeeds.
\<close>

theorem run_retries_witness:
  "run (ConnectCommand refusing_plant 11 0 10 (Some two_retries)) refusing_plant =
     (\<lparr>success = False, result_value = None,
       error = Some (Exc DeviceError ''[PLC] Simulated connect failure.'' None)\<rparr>, refusing_plant) \<and>
   fst (run (ConnectCommand healthy_plant 11 0 10 (Some two_retries)) healthy_plant) =
     \<lparr>success = True, result_value = None, error = None\<rparr> \<and>
   connected (devices (snd (run (ConnectCommand healthy_plant 11 0 10 (Some two_retries)) healthy_plant)) 0) \<and>
   cmd_executed (snd (run (ConnectCommand healthy_plant 11 0 10 (Some two_retries)) healthy_plant)) 11"
proof -
  let ?bad = "ConnectCommand refusing_plant 11 0 10 (Some two_retries)"
  let ?good = "ConnectCommand healthy_plant 11 0 10 (Some two_retries)"
  have raised: "execute ?bad refusing_plant =
      (Some (Exc DeviceError ''[PLC] Simulated connect failure.'' None), refusing_plant)"
    by (simp add: refusing_plant_def ConnectCommand_def ConnectCommand_execute_def connect_def
        fails_def fresh_plant_def new_PLCDevice_def)
  have same: "((\<lambda>s. snd (execute ?bad s)) ^^ k) refusing_plant = refusing_plant" for k
    by (induction k) (simp_all add: raised)
  have retries: "max_retries (retry_policy ?bad) = 2"
    by (simp add: ConnectCommand_def two_retries_def)
  have all_fail: "0 \<le> max_retries (retry_policy ?bad) \<and>
      (\<forall>k\<le>nat (max_retries (retry_policy ?bad)).
         fst (execute ?bad (((\<lambda>s. snd (execute ?bad s)) ^^ k) refusing_plant)) \<noteq> None)"
    by (simp add: same raised retries)
  have first_ok: "0 \<le> nat (max_retries (retry_policy ?good)) \<and>
      (\<forall>j<0. fst (execute ?good (((\<lambda>s. snd (execute ?good s)) ^^ j) healthy_plant)) \<noteq> None) \<and>
      fst (execute ?good (((\<lambda>s. snd (execute ?good s)) ^^ 0) healthy_plant)) = None"
    by (simp add: healthy_plant_def ConnectCommand_def ConnectCommand_execute_def connect_def
        fails_def fresh_plant_def new_PLCDevice_def)
  from run_retries [where cmd = ?bad and s = refusing_plant] all_fail
  have "run ?bad refusing_plant =
      (\<lparr>success = False, result_value = None,
        error = fst (execute ?bad (((\<lambda>s. snd (execute ?bad s)) ^^ nat (max_retries (retry_policy ?bad))) refusing_plant))\<rparr>,
       ((\<lambda>s. snd (execute ?bad s)) ^^ (nat (max_retries (retry_policy ?bad)) + 1)) refusing_plant)"
    by blast
  then have bad: "run ?bad refusing_plant =
     (\<lparr>success = False, result_value = None,
       error = Some (Exc DeviceError ''[PLC] Simulated connect failure.'' None)\<rparr>, refusing_plant)"
    by (simp only: same raised fst_conv)
  from run_retries [where cmd = ?good and s = healthy_plant and k = 0] first_ok
  have "run ?good healthy_plant =
      (\<lparr>success = True, result_value = None, error = None\<rparr>,
       set_executed ?good True (((\<lambda>s. snd (execute ?good s)) ^^ (0 + 1)) healthy_plant))"
    by blast
  then have good: "fst (run ?good healthy_plant) = \<lparr>success = True, result_value = None, error = None\<rparr> \<and>
      connected (devices (snd (run ?good healthy_plant)) 0) \<and>
      cmd_executed (snd (run ?good healthy_plant)) 11"
    by (simp add: healthy_plant_def ConnectCommand_def ConnectCommand_execute_def connect_def
        fails_def fresh_plant_def new_PLCDevice_def write_executed_def)
  from bad good show ?thesis by simp
qed

section \<open>Claims on SetParameterCommand\<close>

text \<open>
  C4 fails on the code. On a connected device without the parameter \<^verbatim>\<open>speed\<close>, running
  \<^verbatim>\<open>SetParameterCommand(device, "speed", 42)\<close> and undoing it leaves the key in \<^verbatim>\<open>params\<close>, with the
  value \<^verbatim>\<open>None\<close>: \<^verbatim>\<open>execute\<close> computes \<^verbatim>\<open>_had_prev\<close> after \<^verbatim>\<open>set_param\<close> has stored the key, so it is
  always true and the branch of \<^verbatim>\<open>undo\<close> that removes the key is never taken.
\<close>

theorem set_parameter_undo_leaves_the_key:
  "(let connect_cmd = ConnectCommand healthy_plant 11 0 10 None;
        set_cmd = SetParameterCommand healthy_plant 12 0 ''speed'' (PyInt 42) None;
        s1 = snd (run connect_cmd healthy_plant);
        s2 = snd (run set_cmd s1);
        s3 = snd (undo set_cmd s2)
    in params (devices s1 0) ''speed'' = None \<and>
       success (fst (run set_cmd s1)) \<and>
       params (devices s2 0) ''speed'' = Some (PyInt 42) \<and>
       cmd_had_prev s2 12 \<and>
       fst (undo set_cmd s2) = None \<and>
       params (devices s3 0) ''speed'' = Some PyNone \<and>
       devices s3 0 \<noteq> devices s1 0)"
proof -
  let ?connect = "ConnectCommand healthy_plant 11 0 10 None"
  let ?set = "SetParameterCommand healthy_plant 12 0 ''speed'' (PyInt 42) None"
  let ?d0 = "new_PLCDevice ''PLC'' Map.empty"
  let ?d1 = "?d0\<lparr>connected := True\<rparr>"
  let ?s1 = "healthy_plant\<lparr>devices := (devices healthy_plant)(0 := ?d1),
               cmd_executed := (cmd_executed healthy_plant)(11 := True)\<rparr>"
  let ?d2 = "?d1\<lparr>params := [''speed'' \<mapsto> PyInt 42]\<rparr>"
  let ?s2 = "?s1\<lparr>devices := (devices ?s1)(0 := ?d2),
               cmd_prev := (cmd_prev ?s1)(12 := PyNone),
               cmd_had_prev := (cmd_had_prev ?s1)(12 := True),
               cmd_executed := (cmd_executed ?s1)(12 := True)\<rparr>"
  let ?d3 = "?d2\<lparr>params := [''speed'' \<mapsto> PyNone]\<rparr>"
  let ?s3 = "?s2\<lparr>devices := (devices ?s2)(0 := ?d3)\<rparr>"
  have r1: "run ?connect healthy_plant = (\<lparr>success = True, result_value = None, error = None\<rparr>, ?s1)"
    by (simp add: healthy_plant_def device_defs)
  have r2: "run ?set ?s1 = (\<lparr>success = True, result_value = None, error = None\<rparr>, ?s2)"
    by (simp add: healthy_plant_def device_defs)
  have r3: "undo ?set ?s2 = (None, ?s3)"
    by (simp add: healthy_plant_def device_defs)
  show ?thesis
    unfolding Let_def r1 r2 r3 snd_conv fst_conv
    by (simp add: healthy_plant_def fresh_plant_def new_PLCDevice_def)
qed

text \<open>
  The same for every connected device, key and value: a key that was absent holds \<^verbatim>\<open>None\<close>
  after the undo, and a key that was present has its previous value again.
\<close>

lemma set_parameter_undo_of_an_absent_key:
  "connected (devices s dev) \<and> \<not> fails (devices s dev) ''set_param'' \<and>
   params (devices s dev) key = None \<longrightarrow>
   (let set_cmd = SetParameterCommand s0 self dev key v policy;
        s2 = snd (run set_cmd s);
        s3 = snd (undo set_cmd s2)
    in success (fst (run set_cmd s)) \<and> fst (undo set_cmd s2) = None \<and>
       params (devices s3 dev) key = Some PyNone)"
proof
  assume h: "connected (devices s dev) \<and> \<not> fails (devices s dev) ''set_param'' \<and>
    params (devices s dev) key = None"
  let ?set = "SetParameterCommand s0 self dev key v policy"
  let ?s2 = "s\<lparr>devices := (devices s)(dev := (devices s dev)\<lparr>params := (params (devices s dev))(key \<mapsto> v)\<rparr>),
               cmd_prev := (cmd_prev s)(self := PyNone),
               cmd_had_prev := (cmd_had_prev s)(self := True),
               cmd_executed := (cmd_executed s)(self := True)\<rparr>"
  have r2: "run ?set s = (\<lparr>success = True, result_value = None, error = None\<rparr>, ?s2)"
    using h by (simp add: SetParameterCommand_def SetParameterCommand_execute_def set_param_def
        write_executed_def run_def run_loop.simps)
  have r3: "undo ?set ?s2 = (None, ?s2\<lparr>devices := (devices s)
      (dev := (devices s dev)\<lparr>params := (params (devices s dev))(key \<mapsto> PyNone)\<rparr>)\<rparr>)"
    using h by (simp add: SetParameterCommand_def SetParameterCommand_undo_def set_param_def
        fails_def)
  show "let set_cmd = ?set; s2 = snd (run set_cmd s); s3 = snd (undo set_cmd s2)
    in success (fst (run set_cmd s)) \<and> fst (undo set_cmd s2) = None \<and>
       params (devices s3 dev) key = Some PyNone"
    unfolding Let_def r2 r3 snd_conv fst_conv by simp
qed

lemma set_parameter_undo_restores_a_present_key:
  "connected (devices s dev) \<and> \<not> fails (devices s dev) ''set_param'' \<and>
   params (devices s dev) key = Some old \<longrightarrow>
   (let set_cmd = SetParameterCommand s0 self dev key v policy;
        s2 = snd (run set_cmd s);
        s3 = snd (undo set_cmd s2)
    in success (fst (run set_cmd s)) \<and> fst (undo set_cmd s2) = None \<and> devices s3 = devices s)"
proof
  assume h: "connected (devices s dev) \<and> \<not> fails (devices s dev) ''set_param'' \<and>
    params (devices s dev) key = Some old"
  let ?set = "SetParameterCommand s0 self dev key v policy"
  let ?s2 = "s\<lparr>devices := (devices s)(dev := (devices s dev)\<lparr>params := (params (devices s dev))(key \<mapsto> v)\<rparr>),
               cmd_prev := (cmd_prev s)(self := old),
               cmd_had_prev := (cmd_had_prev s)(self := True),
               cmd_executed := (cmd_executed s)(self := True)\<rparr>"
  have r2: "run ?set s = (\<lparr>success = True, result_value = None, error = None\<rparr>, ?s2)"
    using h by (simp add: SetParameterCommand_def SetParameterCommand_execute_def set_param_def
        write_executed_def run_def run_loop.simps)
  have r3: "undo ?set ?s2 = (None, ?s2\<lparr>devices := devices s\<rparr>)"
    using h by (simp add: SetParameterCommand_def SetParameterCommand_undo_def set_param_def
        fails_def map_upd_triv)
  show "let set_cmd = ?set; s2 = snd (run set_cmd s); s3 = snd (undo set_cmd s2)
    in success (fst (run set_cmd s)) \<and> fst (undo set_cmd s2) = None \<and> devices s3 = devices s"
    unfolding Let_def r2 r3 snd_conv fst_conv by simp
qed

section \<open>Claims on the editor\<close>

text \<open>
  A cursor within the text: \<^verbatim>\<open>TextBuffer()\<close> starts with it, and \<^verbatim>\<open>insert\<close> keeps it. On such a
  buffer an insertion followed by the undo of \<^verbatim>\<open>InsertText\<close> (moving the cursor back to the start
  position and deleting as many characters as were inserted) gives the buffer back.
\<close>

lemma slice_index_in_range:
  "0 \<le> i \<Longrightarrow> i \<le> int n \<Longrightarrow> slice_index n i = nat i"
  by (simp add: slice_index_def)

lemma buffer_insert_text:
  "0 \<le> cursor b \<Longrightarrow> cursor b \<le> int (length (buf_text b)) \<Longrightarrow>
   buffer_insert txt b =
     b\<lparr>buf_text := take (nat (cursor b)) (buf_text b) @ txt @ drop (nat (cursor b)) (buf_text b),
       cursor := cursor b + int (length txt)\<rparr>"
  by (simp add: buffer_insert_def slice_to_def slice_from_def slice_index_in_range)

lemma insert_then_undo_buffer:
  assumes "0 \<le> cursor b" and "cursor b \<le> int (length (buf_text b))"
  shows "snd (buffer_delete (int (length txt)) (snd (move_cursor (cursor b) (buffer_insert txt b)))) = b"
proof -
  let ?t = "buf_text b" and ?c = "nat (cursor b)"
  let ?T = "take ?c ?t @ txt @ drop ?c ?t"
  from assms have c: "?c \<le> length ?t" by simp
  then have len: "length ?T = length ?t + length txt" by simp
  have b1: "buffer_insert txt b = b\<lparr>buf_text := ?T, cursor := cursor b + int (length txt)\<rparr>"
    using assms by (rule buffer_insert_text)
  have b2: "snd (move_cursor (cursor b) (buffer_insert txt b)) = b\<lparr>buf_text := ?T\<rparr>"
    using assms unfolding b1 move_cursor_def by (simp add: len del: length_append)
  have i1: "slice_index (length ?T) (cursor b) = ?c"
    using assms by (intro slice_index_in_range) (simp_all add: len del: length_append)
  have i2: "slice_index (length ?T) (cursor b + int (length txt)) = ?c + length txt"
    using assms by (subst slice_index_in_range) (simp_all add: len nat_add_distrib del: length_append)
  have t1: "take ?c ?T = take ?c ?t" using c by simp
  have t2: "drop (?c + length txt) ?T = drop ?c ?t" using c by simp
  have "snd (buffer_delete (int (length txt)) (b\<lparr>buf_text := ?T\<rparr>)) =
      b\<lparr>buf_text := take ?c ?T @ drop (?c + length txt) ?T\<rparr>"
    unfolding buffer_delete_def slice_to_def slice_from_def
    by (simp add: i1 i2 del: length_append take_append drop_append)
  also have "\<dots> = b" unfolding t1 t2 by simp
  finally show ?thesis unfolding b2 .
qed

lemma InsertText_roundtrip:
  "0 \<le> cursor (buffers s buf) \<Longrightarrow> cursor (buffers s buf) \<le> int (length (buf_text (buffers s buf))) \<Longrightarrow>
   InsertText_undo self buf txt (snd (InsertText_execute self buf txt s)) =
     (None, s\<lparr>fld_start_pos := (fld_start_pos s)(self := Some (cursor (buffers s buf)))\<rparr>)"
  by (simp add: InsertText_undo_def InsertText_execute_def insert_then_undo_buffer Let_def)

lemma buffer_insert_in_range:
  "0 \<le> cursor b \<Longrightarrow> cursor b \<le> int (length (buf_text b)) \<Longrightarrow>
   0 \<le> cursor (buffer_insert txt b) \<and>
   cursor (buffer_insert txt b) \<le> int (length (buf_text (buffer_insert txt b)))"
  by (simp add: buffer_insert_text)

lemma InsertText_undo_after_insert:
  assumes "fld_start_pos s' self = Some (cursor b)" and "buffers s' buf = buffer_insert txt b"
    and "0 \<le> cursor b" and "cursor b \<le> int (length (buf_text b))"
  shows "InsertText_undo self buf txt s' = (None, s'\<lparr>buffers := (buffers s')(buf := b)\<rparr>)"
  using assms by (simp add: InsertText_undo_def insert_then_undo_buffer Let_def)

text \<open>
  C8. On a buffer whose cursor is within its text, executing the macro of \<^verbatim>\<open>InsertText("Hello")\<close>,
  \<^verbatim>\<open>InsertText(" ")\<close>, \<^verbatim>\<open>InsertText("World")\<close> (three command objects) puts \<open>Hello World\<close> at the cursor,
  and undoing the macro then gives every buffer back as it was before the macro: on the empty
  buffer the text is \<open>Hello World\<close> after the macro and empty after its undo.
\<close>

theorem macro_roundtrip:
  "0 \<le> cursor (buffers s buf) \<and> cursor (buffers s buf) \<le> int (length (buf_text (buffers s buf))) \<and>
   i1 \<noteq> i2 \<and> i1 \<noteq> i3 \<and> i2 \<noteq> i3
   \<longrightarrow>
   (let macro = MacroCommand [InsertText i1 buf ''Hello'', InsertText i2 buf '' '', InsertText i3 buf ''World''];
        ran = execute macro (n, s);
        undone = undo macro (snd ran)
    in fst ran = None \<and>
       buf_text (buffers (snd (snd ran)) buf) =
         take (nat (cursor (buffers s buf))) (buf_text (buffers s buf)) @ ''Hello World'' @
         drop (nat (cursor (buffers s buf))) (buf_text (buffers s buf)) \<and>
       fst undone = None \<and>
       buffers (snd (snd undone)) = buffers s)"
proof
  assume h: "0 \<le> cursor (buffers s buf) \<and> cursor (buffers s buf) \<le> int (length (buf_text (buffers s buf))) \<and>
   i1 \<noteq> i2 \<and> i1 \<noteq> i3 \<and> i2 \<noteq> i3"
  let ?b0 = "buffers s buf"
  let ?b1 = "buffer_insert ''Hello'' ?b0"
  let ?b2 = "buffer_insert '' '' ?b1"
  let ?b3 = "buffer_insert ''World'' ?b2"
  let ?items = "[InsertText i1 buf ''Hello'', InsertText i2 buf '' '', InsertText i3 buf ''World'']"
  define s3 where "s3 = s\<lparr>fld_start_pos := (fld_start_pos s)(i1 := Some (cursor ?b0),
      i2 := Some (cursor ?b1), i3 := Some (cursor ?b2)), buffers := (buffers s)(buf := ?b3)\<rparr>"
  define s2 where "s2 = s3\<lparr>buffers := (buffers s3)(buf := ?b2)\<rparr>"
  define s1 where "s1 = s2\<lparr>buffers := (buffers s2)(buf := ?b1)\<rparr>"
  define s0 where "s0 = s1\<lparr>buffers := (buffers s1)(buf := ?b0)\<rparr>"
  from h have v0: "0 \<le> cursor ?b0" "cursor ?b0 \<le> int (length (buf_text ?b0))" by simp_all
  from buffer_insert_in_range [OF v0]
  have v1: "0 \<le> cursor ?b1" "cursor ?b1 \<le> int (length (buf_text ?b1))" by simp_all
  from buffer_insert_in_range [OF v1]
  have v2: "0 \<le> cursor ?b2" "cursor ?b2 \<le> int (length (buf_text ?b2))" by simp_all
  have ran: "execute (MacroCommand ?items) (n, s) = (None, (3, s3))"
    by (simp add: s3_def MacroCommand_def MacroCommand_execute_def InsertText_def InsertText_execute_def)
  have text3: "buf_text (buffers s3 buf) = take (nat (cursor ?b0)) (buf_text ?b0) @ ''Hello World'' @
      drop (nat (cursor ?b0)) (buf_text ?b0)"
    using v0 by (simp add: s3_def buffer_insert_text nat_add_distrib)
  have u3: "InsertText_undo i3 buf ''World'' s3 = (None, s2)"
    unfolding s2_def using v2 by (intro InsertText_undo_after_insert) (simp_all add: s3_def)
  have u2: "InsertText_undo i2 buf '' '' s2 = (None, s1)"
    unfolding s1_def using v1 h by (intro InsertText_undo_after_insert) (simp_all add: s2_def s3_def)
  have u1: "InsertText_undo i1 buf ''Hello'' s1 = (None, s0)"
    unfolding s0_def using v0 h by (intro InsertText_undo_after_insert) (simp_all add: s1_def s2_def s3_def)
  have undone: "undo (MacroCommand ?items) (3, s3) = (None, (0, s0))"
    by (simp add: MacroCommand_def MacroCommand_undo_def InsertText_def u3 u2 u1)
  have restored: "buffers s0 = buffers s"
    by (simp add: s0_def s1_def s2_def s3_def)
  show "let macro = MacroCommand ?items; ran = execute macro (n, s); undone = undo macro (snd ran)
    in fst ran = None \<and>
       buf_text (buffers (snd (snd ran)) buf) =
         take (nat (cursor (buffers s buf))) (buf_text (buffers s buf)) @ ''Hello World'' @
         drop (nat (cursor (buffers s buf))) (buf_text (buffers s buf)) \<and>
       fst undone = None \<and>
       buffers (snd (snd undone)) = buffers s"
    unfolding Let_def ran snd_conv fst_conv undone using text3 restored by simp
qed

text \<open>The macro of the module's test, on the empty buffer.\<close>

theorem macro_roundtrip_witness:
  "(let macro = MacroCommand [InsertText 11 0 ''Hello'', InsertText 12 0 '' '', InsertText 13 0 ''World''];
        ran = execute macro (0, empty_editor);
        undone = undo macro (snd ran)
    in fst ran = None \<and>
       buf_text (buffers (snd (snd ran)) 0) = ''Hello World'' \<and>
       fst undone = None \<and>
       buf_text (buffers (snd (snd undone)) 0) = [])"
  using macro_roundtrip [where s = empty_editor and buf = 0 and ?i1.0 = 11 and ?i2.0 = 12
      and ?i3.0 = 13 and n = 0]
  by (simp add: empty_editor_def fresh_editor_def Let_def)

section \<open>Claims on repeated undo\<close>



























section \<open>Claims on the queue and the worker\<close>

text \<open>
  C9. \<^verbatim>\<open>dequeue\<close> on an empty queue raises \<^verbatim>\<open>EmptyQueueError\<close>, and it raises only then;
  \<^verbatim>\<open>poll_once\<close> on an empty queue returns \<^verbatim>\<open>False\<close>, raises nothing, and leaves the queue, the
  dead-letter list (with every envelope in them) and the receivers as they are.
\<close>

theorem empty_queue_is_not_an_error:
  "dequeue ([] :: 's CommandEnvelope list) =
     Inl (Exc EmptyQueueError ''Queue is empty.'' (Some (Exc IndexError ''pop from an empty deque'' None))) \<and>
   ((\<exists>e. dequeue q = Inl e) = (q = [])) \<and>
   poll_once (w\<lparr>queue := []\<rparr>) s = (Inr False, (w\<lparr>queue := []\<rparr>, s))"
  by (simp add: dequeue_def poll_once_def split: list.splits)

text \<open>The four ways through \<^verbatim>\<open>poll_once\<close> that return.\<close>

lemma poll_once_success:
  "queue w = env # rest \<Longrightarrow> fst (execute (env_command env) s) = None \<Longrightarrow>
   poll_once w s = (Inr True, (w\<lparr>queue := rest\<rparr>, snd (execute (env_command env) s)))"
  by (cases "execute (env_command env) s") (simp add: poll_once_def dequeue_def)

lemma poll_once_retry:
  "queue w = env # rest \<Longrightarrow> fst (execute (env_command env) s) = Some e \<Longrightarrow>
   is_Exception (exc_class e) \<Longrightarrow> attempts env + 1 \<le> max_retries (env_retry_policy env) \<Longrightarrow>
   poll_once w s =
     (Inr True,
      (w\<lparr>queue := rest @ [env\<lparr>attempts := attempts env + 1, last_error := Some (py_repr e)\<rparr>]\<rparr>,
       snd (execute (env_command env) s)))"
  by (cases "execute (env_command env) s") (simp add: poll_once_def dequeue_def enqueue_def Let_def)

lemma poll_once_dead_letter:
  "queue w = env # rest \<Longrightarrow> fst (execute (env_command env) s) = Some e \<Longrightarrow>
   is_Exception (exc_class e) \<Longrightarrow> \<not> attempts env + 1 \<le> max_retries (env_retry_policy env) \<Longrightarrow>
   poll_once w s =
     (Inr True,
      (w\<lparr>queue := rest,
         dead_letter := dead_letter w @ [env\<lparr>attempts := attempts env + 1, last_error := Some (py_repr e)\<rparr>]\<rparr>,
       snd (execute (env_command env) s)))"
  by (cases "execute (env_command env) s") (simp add: poll_once_def dequeue_def enqueue_def Let_def)

lemma poll_once_empty: "queue w = [] \<Longrightarrow> poll_once w s = (Inr False, (w, s))"
  by (simp add: poll_once_def dequeue_def)

text \<open>
  C6. Commands \<open>c1\<close> and \<open>c2\<close> are sent in this order, \<open>c2\<close> with a policy of one retry;
  \<open>c1\<close> succeeds, and \<open>c2\<close> fails (raises an \<^verbatim>\<open>Exception\<close>) both times it is tried. Then the first
  poll processes \<open>c1\<close> while the envelope of \<open>c2\<close> is still queued, untouched; and a drain of at
  least three steps (the default is 1000) returns \<open>(3, 1)\<close>, with the queue empty and exactly the
  envelope of \<open>c2\<close> in the dead-letter list, its \<open>attempts\<close> equal to 2.
\<close>

theorem fifo_then_dead_letter:
  "fst (execute c1 s) = None \<and>
   fst (execute c2 (snd (execute c1 s))) = Some e1 \<and> is_Exception (exc_class e1) \<and>
   fst (execute c2 (snd (execute c2 (snd (execute c1 s))))) = Some e2 \<and> is_Exception (exc_class e2) \<and>
   max_retries p2 = 1 \<and> 3 \<le> max_steps
   \<longrightarrow>
   (let w0 = send c2 (Some p2) (send c1 p1 new_bus);
        env2 = \<lparr>env_command = c2, env_retry_policy = p2, attempts = 0, last_error = None\<rparr>
    in poll_once w0 s = (Inr True, (\<lparr>queue = [env2], dead_letter = []\<rparr>, snd (execute c1 s))) \<and>
       drain max_steps w0 s =
         (Inr (3, 1),
          (\<lparr>queue = [], dead_letter = [env2\<lparr>attempts := 2, last_error := Some (py_repr e2)\<rparr>]\<rparr>,
           snd (execute c2 (snd (execute c2 (snd (execute c1 s))))))))"
proof
  assume h: "fst (execute c1 s) = None \<and>
   fst (execute c2 (snd (execute c1 s))) = Some e1 \<and> is_Exception (exc_class e1) \<and>
   fst (execute c2 (snd (execute c2 (snd (execute c1 s))))) = Some e2 \<and> is_Exception (exc_class e2) \<and>
   max_retries p2 = 1 \<and> 3 \<le> max_steps"
  let ?env1 = "\<lparr>env_command = c1,
      env_retry_policy = (case p1 of None \<Rightarrow> queue_RetryPolicy | Some p \<Rightarrow> p),
      attempts = 0, last_error = None\<rparr>"
  let ?env2 = "\<lparr>env_command = c2, env_retry_policy = p2, attempts = 0, last_error = None\<rparr>"
  let ?s1 = "snd (execute c1 s)"
  let ?s2 = "snd (execute c2 ?s1)"
  let ?s3 = "snd (execute c2 ?s2)"
  define w0 where "w0 = \<lparr>queue = [?env1, ?env2], dead_letter = []\<rparr>"
  define w1 where "w1 = \<lparr>queue = [?env2], dead_letter = []\<rparr>"
  define w2 where "w2 = \<lparr>queue = [?env2\<lparr>attempts := 1, last_error := Some (py_repr e1)\<rparr>], dead_letter = []\<rparr>"
  define w3 where "w3 = \<lparr>queue = [],
      dead_letter = [?env2\<lparr>attempts := 2, last_error := Some (py_repr e2)\<rparr>]\<rparr>"
  have sent: "send c2 (Some p2) (send c1 p1 new_bus) = w0"
    by (simp add: send_def new_bus_def enqueue_def w0_def)
  have step1: "poll_once w0 s = (Inr True, (w1, ?s1))"
    using h poll_once_success [of w0 ?env1 "[?env2]" s] by (simp add: w0_def w1_def)
  have step2: "poll_once w1 ?s1 = (Inr True, (w2, ?s2))"
    using h poll_once_retry [of w1 ?env2 "[]" ?s1 e1] by (simp add: w1_def w2_def)
  have step3: "poll_once w2 ?s2 = (Inr True, (w3, ?s3))"
    using h poll_once_dead_letter
      [of w2 "?env2\<lparr>attempts := 1, last_error := Some (py_repr e1)\<rparr>" "[]" ?s2 e2]
    by (simp add: w2_def w3_def)
  have step4: "poll_once w3 ?s3 = (Inr False, (w3, ?s3))"
    by (rule poll_once_empty) (simp add: w3_def)
  from h have steps: "0 < max_steps" "1 < max_steps" "2 < max_steps" by simp_all
  have "drain max_steps w0 s = drain_loop max_steps 1 1 w1 ?s1"
    unfolding drain_def using steps(1) step1 by (subst drain_loop.simps) simp
  also have "\<dots> = drain_loop max_steps 2 2 w2 ?s2"
    using steps(2) step2 by (subst drain_loop.simps) simp
  also have "\<dots> = drain_loop max_steps 3 3 w3 ?s3"
    using steps(3) step3 by (subst drain_loop.simps) simp
  also have "\<dots> = (Inr (3, 1), (w3, ?s3))"
    using step4 by (subst drain_loop.simps) (simp add: w3_def)
  finally have drained: "drain max_steps w0 s = (Inr (3, 1), (w3, ?s3))" .
  show "let w0 = send c2 (Some p2) (send c1 p1 new_bus); env2 = ?env2
    in poll_once w0 s = (Inr True, (\<lparr>queue = [env2], dead_letter = []\<rparr>, snd (execute c1 s))) \<and>
       drain max_steps w0 s =
         (Inr (3, 1),
          (\<lparr>queue = [], dead_letter = [env2\<lparr>attempts := 2, last_error := Some (py_repr e2)\<rparr>]\<rparr>,
           snd (execute c2 (snd (execute c2 (snd (execute c1 s)))))))"
    unfolding Let_def sent step1 drained by (simp add: w1_def w3_def)
qed

text \<open>
  An email that can be sent and one without a recipient (which \<^verbatim>\<open>EmailService.send\<close> always
  refuses), drained with the default cap.
\<close>

theorem fifo_then_dead_letter_witness:
  "(let good = SendEmailCommand ''u@example.com'' ''S'' ''B'';
        bad = SendEmailCommand [] ''S'' ''B'';
        w0 = send bad (Some one_retry) (send good None new_bus);
        result = drain 1000 w0 new_EmailService
    in fst result = Inr (3, 1) \<and>
       queue (fst (snd result)) = [] \<and>
       map attempts (dead_letter (fst (snd result))) = [2] \<and>
       map (description \<circ> env_command) (dead_letter (fst (snd result))) = [''SendEmail(to=)''] \<and>
       map last_error (dead_letter (fst (snd result))) = [Some ''ValueError('Recipient is required.')''] \<and>
       outbox (snd (snd result)) = [(''u@example.com'', ''S'', ''B'')] \<and>
       map attempts (queue (fst (snd (poll_once w0 new_EmailService)))) = [0] \<and>
       dead_letter (fst (snd (poll_once w0 new_EmailService))) = [])"
  using fifo_then_dead_letter [where ?c1.0 = "SendEmailCommand ''u@example.com'' ''S'' ''B''"
      and ?c2.0 = "SendEmailCommand [] ''S'' ''B''" and s = new_EmailService
      and ?e1.0 = "Exc ValueError ''Recipient is required.'' None"
      and ?e2.0 = "Exc ValueError ''Recipient is required.'' None"
      and ?p1.0 = None and ?p2.0 = one_retry and max_steps = 1000]
  by (simp add: Let_def SendEmailCommand_def SendEmailCommand_execute_def email_send_def
      new_EmailService_def one_retry_def py_repr_def)







end
